theory Spec2Isabelle
  imports Main "HOL-Library.Word" "HOL-Library.Sublist"
begin

section \<open>Build configuration and platform results\<close>

text \<open>
  \<^verbatim>\<open>main/main.c\<close> is configured by the preprocessor. Each symbol the file tests is a field:
  a \<^verbatim>\<open>defined\<close> test is a boolean, the touch controller selection is the pair of integers
  that line 122 compares, and \<^verbatim>\<open>DISP_BUF_SIZE\<close> (a macro of \<^verbatim>\<open>lvgl_helpers.h\<close>, which is
  not part of the sources) is the value line 94 stores into a \<^verbatim>\<open>uint32_t\<close>.
\<close>

record config =
  CONFIG_LV_TFT_DISPLAY_MONOCHROME :: bool
  CONFIG_LV_TFT_DISPLAY_CONTROLLER_IL3820 :: bool
  CONFIG_LV_TFT_DISPLAY_CONTROLLER_JD79653A :: bool
  CONFIG_LV_TFT_DISPLAY_CONTROLLER_UC8151D :: bool
  CONFIG_LV_TOUCH_CONTROLLER :: int
  TOUCH_CONTROLLER_NONE :: int
  DISP_BUF_SIZE :: "32 word"

type_synonym esp_err_t = int

definition ESP_OK :: esp_err_t where
  "ESP_OK = 0"

datatype handle = Handle nat

text \<open>A \<^verbatim>\<open>SemaphoreHandle_t\<close> is a pointer: \<open>None\<close> is \<^verbatim>\<open>NULL\<close>.\<close>

type_synonym SemaphoreHandle_t = "handle option"

text \<open>
  What the platform calls whose results \<^verbatim>\<open>guiTask\<close> stores or tests return on one boot:
  \<^verbatim>\<open>xSemaphoreCreateMutex\<close> (line 76), \<^verbatim>\<open>esp_timer_create\<close> (line 135) and
  \<^verbatim>\<open>esp_timer_start_periodic\<close> (line 136).
\<close>

record platform =
  xSemaphoreCreateMutex_ret :: SemaphoreHandle_t
  esp_timer_create_ret :: esp_err_t
  esp_timer_start_periodic_ret :: esp_err_t

type_synonym BaseType_t = int

definition pdTRUE :: BaseType_t where
  "pdTRUE = 1"

definition pdFALSE :: BaseType_t where
  "pdFALSE = 0"

definition LV_TICK_PERIOD_MS :: nat where
  "LV_TICK_PERIOD_MS = 1"

section \<open>Data of the display and input registration\<close>

text \<open>The two static pixel arrays of \<^verbatim>\<open>guiTask\<close> (lines 83 and 87).\<close>

datatype buffer = Buf1 | Buf2

text \<open>The functions whose addresses \<^verbatim>\<open>guiTask\<close> hands out as callbacks.\<close>

datatype callback =
    Disp_driver_flush
  | Disp_driver_rounder
  | Disp_driver_set_px
  | Touch_driver_read
  | Lv_tick_task

text \<open>The address of the static \<^verbatim>\<open>disp_buf\<close> (line 92).\<close>

datatype disp_buf_ref = Disp_buf

record lv_disp_drv_t =
  flush_cb :: "callback option"
  rounder_cb :: "callback option"
  set_px_cb :: "callback option"
  buffer :: "disp_buf_ref option"

datatype lv_indev_type_t = LV_INDEV_TYPE_NONE | LV_INDEV_TYPE_POINTER

record lv_indev_drv_t =
  read_cb :: "callback option"
  indev_type :: lv_indev_type_t

record esp_timer_create_args_t =
  callback :: callback
  name :: string

text \<open>A tick count as the source writes it: through \<^verbatim>\<open>pdMS_TO_TICKS\<close>, or \<^verbatim>\<open>portMAX_DELAY\<close>.\<close>

datatype ticks = PdMS_TO_TICKS nat | PortMAX_DELAY

section \<open>Calls, tasks and the state\<close>

text \<open>
  Every call \<^verbatim>\<open>guiTask\<close> makes into FreeRTOS, the ESP timer service, the driver helpers
  and the GUI library, with its arguments where the source computes them.
  \<open>XSemaphoreTake\<close> also records the value the call returned.
\<close>

datatype event =
    XSemaphoreCreateMutex
  | Lv_init
  | Lvgl_driver_init
  | Lv_disp_buf_init disp_buf_ref "buffer option" "buffer option" "32 word"
  | Lv_disp_drv_init
  | Lv_disp_drv_register lv_disp_drv_t
  | Lv_indev_drv_init
  | Lv_indev_drv_register lv_indev_drv_t
  | Esp_timer_create esp_timer_create_args_t
  | Esp_timer_start_periodic nat
  | Abort
  | Create_demo_application
  | VTaskDelay ticks
  | XSemaphoreTake SemaphoreHandle_t ticks BaseType_t
  | Lv_task_handler
  | XSemaphoreGive SemaphoreHandle_t
  | VTaskDelete

datatype task = GuiTask | Other nat

text \<open>
  The program counter of \<^verbatim>\<open>guiTask\<close>: the line of \<^verbatim>\<open>main/main.c\<close> whose statement runs
  next, \<open>Aborted\<close> after a failed \<^verbatim>\<open>ESP_ERROR_CHECK\<close>, \<open>Deleted\<close> after line 155.
  The assignments of lines 108 to 118 and the call of line 119 are one statement
  (\<open>L108\<close>), and so are the assignments of lines 125 and 126 and the call of line 127
  (\<open>L125\<close>).
\<close>

datatype pc =
    L76 | L78 | L81 | L104 | L107 | L108 | L124 | L125 | L135 | L136 | L139
  | L141 | L144 | L147 | L149 | L150 | L155 | Aborted | Deleted

text \<open>
  The state: where \<^verbatim>\<open>guiTask\<close> stands, the global \<^verbatim>\<open>xGuiSemaphore\<close> (line 70), the
  tasks holding the GUI lock, whether the periodic timer runs, the logical clock, the
  GUI library's state and the contents of the display buffers (both abstract), and the
  calls \<^verbatim>\<open>guiTask\<close> has made so far.
\<close>

record ('g, 'b) state =
  pc :: pc
  xGuiSemaphore :: SemaphoreHandle_t
  holders :: "task set"
  timer_running :: bool
  sys_time :: nat
  gui :: 'g
  bufs :: 'b
  trace :: "event list"

text \<open>
  The GUI library and the driver helpers are not part of the sources. Their behaviour is
  a parameter: what \<^verbatim>\<open>lv_disp_drv_init\<close> and \<^verbatim>\<open>lv_indev_drv_init\<close> leave in the structure
  they initialise, and the effect of a library call, made at a given logical time, on the
  GUI state and the display buffers.
\<close>

record ('g, 'b) library =
  lv_disp_drv_init :: lv_disp_drv_t
  lv_indev_drv_init :: lv_indev_drv_t
  lv_effect :: "event \<Rightarrow> nat \<Rightarrow> 'g \<times> 'b \<Rightarrow> 'g \<times> 'b"

definition boot :: "'g \<Rightarrow> 'b \<Rightarrow> ('g, 'b) state" where
  "boot g b = \<lparr>pc = L76, xGuiSemaphore = None, holders = {}, timer_running = False,
     sys_time = 0, gui = g, bufs = b, trace = []\<rparr>"

section \<open>The tick callback\<close>

text \<open>
  Modelled from the spec: \<^verbatim>\<open>lv_tick_inc\<close> is the GUI library's tick-advance operation and
  is not part of the sources. Section 4.1: the callback effect "advances the Logical
  Clock by exactly \<open>period\<close>"; section 3: the clock is a counter of elapsed milliseconds.
\<close>

definition lv_tick_inc :: "nat \<Rightarrow> ('g, 'b) state \<Rightarrow> ('g, 'b) state" where
  "lv_tick_inc tick_period s = s\<lparr>sys_time := sys_time s + tick_period\<rparr>"

text \<open>Lines 213 to 218.\<close>

definition lv_tick_task :: "('g, 'b) state \<Rightarrow> ('g, 'b) state" where
  "lv_tick_task s = lv_tick_inc LV_TICK_PERIOD_MS s"

section \<open>The GUI task\<close>

text \<open>A call that is only recorded, and a call into the GUI library, which also acts.\<close>

definition call :: "event \<Rightarrow> ('g, 'b) state \<Rightarrow> ('g, 'b) state" where
  "call e s = s\<lparr>trace := trace s @ [e]\<rparr>"

definition lv_call :: "('g, 'b) library \<Rightarrow> event \<Rightarrow> ('g, 'b) state \<Rightarrow> ('g, 'b) state" where
  "lv_call lib e s =
     (let gb = lv_effect lib e (sys_time s) (gui s, bufs s)
      in s\<lparr>gui := fst gb, bufs := snd gb, trace := trace s @ [e]\<rparr>)"

text \<open>Lines 86 to 90: the second buffer is a static array, or \<^verbatim>\<open>NULL\<close> on a monochrome display.\<close>

definition buf2 :: "config \<Rightarrow> buffer option" where
  "buf2 cfg = (if CONFIG_LV_TFT_DISPLAY_MONOCHROME cfg then None else Some Buf2)"

text \<open>Lines 94 to 100, in \<^verbatim>\<open>uint32_t\<close> arithmetic.\<close>

definition size_in_px :: "config \<Rightarrow> 32 word" where
  "size_in_px cfg =
     (let size_in_px = DISP_BUF_SIZE cfg
      in if CONFIG_LV_TFT_DISPLAY_CONTROLLER_IL3820 cfg
            \<or> CONFIG_LV_TFT_DISPLAY_CONTROLLER_JD79653A cfg
            \<or> CONFIG_LV_TFT_DISPLAY_CONTROLLER_UC8151D cfg
         then size_in_px * 8
         else size_in_px)"

text \<open>Lines 106 to 118: the driver structure handed to \<^verbatim>\<open>lv_disp_drv_register\<close>.\<close>

definition disp_drv :: "('g, 'b) library \<Rightarrow> config \<Rightarrow> lv_disp_drv_t" where
  "disp_drv lib cfg =
     (let d = (lv_disp_drv_init lib)\<lparr>flush_cb := Some Disp_driver_flush\<rparr>;
          d = (if CONFIG_LV_TFT_DISPLAY_MONOCHROME cfg
               then d\<lparr>rounder_cb := Some Disp_driver_rounder,
                      set_px_cb := Some Disp_driver_set_px\<rparr>
               else d)
      in d\<lparr>buffer := Some Disp_buf\<rparr>)"

text \<open>Lines 123 to 126: the input driver structure handed to \<^verbatim>\<open>lv_indev_drv_register\<close>.\<close>

definition indev_drv :: "('g, 'b) library \<Rightarrow> lv_indev_drv_t" where
  "indev_drv lib =
     (lv_indev_drv_init lib)\<lparr>read_cb := Some Touch_driver_read,
                              indev_type := LV_INDEV_TYPE_POINTER\<rparr>"

text \<open>Lines 131 to 133.\<close>

definition periodic_timer_args :: esp_timer_create_args_t where
  "periodic_timer_args = \<lparr>callback = Lv_tick_task, name = ''periodic_gui''\<rparr>"

text \<open>\<^verbatim>\<open>ESP_ERROR_CHECK\<close>: any result other than \<^verbatim>\<open>ESP_OK\<close> aborts.\<close>

definition ESP_ERROR_CHECK ::
  "esp_err_t \<Rightarrow> ('g, 'b) state \<Rightarrow> ('g, 'b) state \<Rightarrow> ('g, 'b) state" where
  "ESP_ERROR_CHECK rc s ok =
     (if rc \<noteq> ESP_OK then (call Abort s)\<lparr>pc := Aborted\<rparr> else ok)"

text \<open>
  One statement of \<^verbatim>\<open>guiTask\<close> (lines 72 to 156). \<open>r\<close> is the value \<^verbatim>\<open>xSemaphoreTake\<close>
  returns when the statement is the one of line 147; a caller whose take returned
  \<^verbatim>\<open>pdTRUE\<close> holds the lock, and \<^verbatim>\<open>xSemaphoreGive\<close> ends that.
\<close>

definition guiTask_step ::
  "('g, 'b) library \<Rightarrow> config \<Rightarrow> platform \<Rightarrow> BaseType_t \<Rightarrow> ('g, 'b) state \<Rightarrow> ('g, 'b) state" where
  "guiTask_step lib cfg pf r s =
     (case pc s of
        L76 \<Rightarrow> (call XSemaphoreCreateMutex s)
                 \<lparr>xGuiSemaphore := xSemaphoreCreateMutex_ret pf, pc := L78\<rparr>
      | L78 \<Rightarrow> (lv_call lib Lv_init s)\<lparr>pc := L81\<rparr>
      | L81 \<Rightarrow> (call Lvgl_driver_init s)\<lparr>pc := L104\<rparr>
      | L104 \<Rightarrow> (lv_call lib (Lv_disp_buf_init Disp_buf (Some Buf1) (buf2 cfg) (size_in_px cfg)) s)
                  \<lparr>pc := L107\<rparr>
      | L107 \<Rightarrow> (lv_call lib Lv_disp_drv_init s)\<lparr>pc := L108\<rparr>
      | L108 \<Rightarrow> (lv_call lib (Lv_disp_drv_register (disp_drv lib cfg)) s)
                  \<lparr>pc := (if CONFIG_LV_TOUCH_CONTROLLER cfg \<noteq> TOUCH_CONTROLLER_NONE cfg
                           then L124 else L135)\<rparr>
      | L124 \<Rightarrow> (lv_call lib Lv_indev_drv_init s)\<lparr>pc := L125\<rparr>
      | L125 \<Rightarrow> (lv_call lib (Lv_indev_drv_register (indev_drv lib)) s)\<lparr>pc := L135\<rparr>
      | L135 \<Rightarrow> (let s1 = call (Esp_timer_create periodic_timer_args) s
                 in ESP_ERROR_CHECK (esp_timer_create_ret pf) s1 (s1\<lparr>pc := L136\<rparr>))
      | L136 \<Rightarrow> (let s1 = call (Esp_timer_start_periodic (LV_TICK_PERIOD_MS * 1000)) s
                 in ESP_ERROR_CHECK (esp_timer_start_periodic_ret pf) s1
                      (s1\<lparr>timer_running := True, pc := L139\<rparr>))
      | L139 \<Rightarrow> (lv_call lib Create_demo_application s)\<lparr>pc := L141\<rparr>
      | L141 \<Rightarrow> (if (1::int) \<noteq> 0 then s\<lparr>pc := L144\<rparr> else s\<lparr>pc := L155\<rparr>)
      | L144 \<Rightarrow> (call (VTaskDelay (PdMS_TO_TICKS 10)) s)\<lparr>pc := L147\<rparr>
      | L147 \<Rightarrow> (let s1 = call (XSemaphoreTake (xGuiSemaphore s) PortMAX_DELAY r) s
                 in if pdTRUE = r
                    then s1\<lparr>holders := insert GuiTask (holders s), pc := L149\<rparr>
                    else s1\<lparr>pc := L141\<rparr>)
      | L149 \<Rightarrow> (lv_call lib Lv_task_handler s)\<lparr>pc := L150\<rparr>
      | L150 \<Rightarrow> (call (XSemaphoreGive (xGuiSemaphore s)) s)
                  \<lparr>holders := holders s - {GuiTask}, pc := L141\<rparr>
      | L155 \<Rightarrow> (call VTaskDelete s)\<lparr>pc := Deleted\<rparr>
      | Aborted \<Rightarrow> s
      | Deleted \<Rightarrow> s)"

text \<open>
  \<^verbatim>\<open>guiTask\<close> on its own, statement by statement, until it stands at the head of the loop
  (line 141) or has aborted; \<open>n\<close> bounds the number of statements.
\<close>

primrec run_to_loop ::
  "nat \<Rightarrow> ('g, 'b) library \<Rightarrow> config \<Rightarrow> platform \<Rightarrow> ('g, 'b) state \<Rightarrow> ('g, 'b) state" where
  "run_to_loop 0 lib cfg pf s = s"
| "run_to_loop (Suc n) lib cfg pf s =
     (if pc s = L141 \<or> pc s = Aborted then s
      else run_to_loop n lib cfg pf (guiTask_step lib cfg pf pdFALSE s))"

text \<open>The startup sequence: lines 76 to 139 from the boot state (eleven statements at most).\<close>

definition startup ::
  "('g, 'b) library \<Rightarrow> config \<Rightarrow> platform \<Rightarrow> 'g \<Rightarrow> 'b \<Rightarrow> ('g, 'b) state" where
  "startup lib cfg pf g b = run_to_loop 11 lib cfg pf (boot g b)"

section \<open>One pass of the loop\<close>

text \<open>
  \<^verbatim>\<open>guiTask\<close> on its own from a state of the loop, statement by statement, until it stands
  at the head of the loop again; \<open>r\<close> is what \<^verbatim>\<open>xSemaphoreTake\<close> returns in this pass.
\<close>

primrec run_to_head ::
  "nat \<Rightarrow> ('g, 'b) library \<Rightarrow> config \<Rightarrow> platform \<Rightarrow> BaseType_t \<Rightarrow> ('g, 'b) state
     \<Rightarrow> ('g, 'b) state" where
  "run_to_head 0 lib cfg pf r s = s"
| "run_to_head (Suc n) lib cfg pf r s =
     (let s' = guiTask_step lib cfg pf r s
      in if pc s' = L141 then s' else run_to_head n lib cfg pf r s')"

text \<open>Lines 141 to 152 once (five statements at most).\<close>

definition loop_iteration ::
  "('g, 'b) library \<Rightarrow> config \<Rightarrow> platform \<Rightarrow> BaseType_t \<Rightarrow> ('g, 'b) state \<Rightarrow> ('g, 'b) state" where
  "loop_iteration lib cfg pf r s = run_to_head 5 lib cfg pf r s"

text \<open>The calls made between an earlier state \<open>s\<close> and a later state \<open>s'\<close>.\<close>

definition new_calls :: "('g, 'b) state \<Rightarrow> ('g, 'b) state \<Rightarrow> event list" where
  "new_calls s s' = drop (length (trace s)) (trace s')"

text \<open>The calls of one pass in which the lock \<open>h\<close> is acquired.\<close>

definition iteration_calls :: "SemaphoreHandle_t \<Rightarrow> event list" where
  "iteration_calls h =
     [VTaskDelay (PdMS_TO_TICKS 10), XSemaphoreTake h PortMAX_DELAY pdTRUE,
      Lv_task_handler, XSemaphoreGive h]"

text \<open>How many calls of the current pass lie behind a program point of the loop.\<close>

definition calls_done :: "pc \<Rightarrow> nat" where
  "calls_done p = (case p of L147 \<Rightarrow> 1 | L149 \<Rightarrow> 2 | L150 \<Rightarrow> 3 | _ \<Rightarrow> 0)"

definition in_loop :: "pc \<Rightarrow> bool" where
  "in_loop p = (p = L141 \<or> p = L144 \<or> p = L147 \<or> p = L149 \<or> p = L150)"

text \<open>
  The calls at which the calling task blocks: a wait without bound, which the loop makes
  only as the take of line 147 with \<^verbatim>\<open>portMAX_DELAY\<close>. The sleep of line 144 is the fixed
  quantum of the loop, over after ten milliseconds, and is not such a wait.
\<close>

definition blocks :: "event \<Rightarrow> bool" where
  "blocks e = (case e of XSemaphoreTake _ w _ \<Rightarrow> w = PortMAX_DELAY | _ \<Rightarrow> False)"

section \<open>What was registered with the GUI library\<close>

text \<open>The arguments of every \<^verbatim>\<open>lv_disp_buf_init\<close> call of a trace: both buffers and the size.\<close>

definition disp_buf_inits :: "event list \<Rightarrow> (buffer option \<times> buffer option \<times> 32 word) list" where
  "disp_buf_inits es =
     concat (map (\<lambda>e. case e of Lv_disp_buf_init _ b1 b2 n \<Rightarrow> [(b1, b2, n)] | _ \<Rightarrow> []) es)"

text \<open>The driver structure of every \<^verbatim>\<open>lv_disp_drv_register\<close> call of a trace.\<close>

definition disp_drv_registers :: "event list \<Rightarrow> lv_disp_drv_t list" where
  "disp_drv_registers es =
     concat (map (\<lambda>e. case e of Lv_disp_drv_register d \<Rightarrow> [d] | _ \<Rightarrow> []) es)"

section \<open>The tasks together\<close>

text \<open>
  What the scheduler can run next: a statement of \<^verbatim>\<open>guiTask\<close>, a firing of the periodic
  timer, or another task taking the lock, giving it back, or changing GUI state.
\<close>

datatype ('g, 'b) action =
    Gui
  | Tick
  | Other_take nat
  | Other_give nat
  | Other_call nat "'g \<times> 'b \<Rightarrow> 'g \<times> 'b"

definition actor :: "('g, 'b) action \<Rightarrow> task option" where
  "actor a = (case a of Gui \<Rightarrow> Some GuiTask | Tick \<Rightarrow> None | Other_take i \<Rightarrow> Some (Other i)
              | Other_give i \<Rightarrow> Some (Other i) | Other_call i _ \<Rightarrow> Some (Other i))"

text \<open>
  Modelled from the spec: \<^verbatim>\<open>xSemaphoreTake\<close> is FreeRTOS and is not part of the sources.
  Section 3: the GUI Lock is a binary mutual-exclusion primitive; sections 4.2 and 7: with
  an unbounded wait the acquisition cannot fail, only delay. So a take with
  \<^verbatim>\<open>portMAX_DELAY\<close> returns \<^verbatim>\<open>pdTRUE\<close> once no task holds the lock, and does not return
  before (\<open>None\<close>). The specification says nothing about a \<^verbatim>\<open>NULL\<close> handle: no
  return is modelled for it.
\<close>

definition xSemaphoreTake_portMAX_DELAY :: "SemaphoreHandle_t \<Rightarrow> task set \<Rightarrow> BaseType_t option" where
  "xSemaphoreTake_portMAX_DELAY h hs =
     (case h of None \<Rightarrow> None | Some _ \<Rightarrow> if hs = {} then Some pdTRUE else None)"

text \<open>
  Modelled from the spec: the tasks other than \<^verbatim>\<open>guiTask\<close> are not part of the sources.
  Section 4.3: a task outside the render loop acquires the GUI Lock before it calls a
  GUI-library mutation function, and releases it after. Such a task takes the lock when it
  exists and nobody holds it, gives back a lock it holds, and changes the GUI state or the
  display buffers only while it holds the lock.
\<close>

definition other_task_step ::
  "('g, 'b) action \<Rightarrow> ('g, 'b) state \<Rightarrow> ('g, 'b) state option" where
  "other_task_step a s =
     (case a of
        Other_take i \<Rightarrow>
          (if xGuiSemaphore s \<noteq> None \<and> holders s = {}
           then Some (s\<lparr>holders := {Other i}\<rparr>) else None)
      | Other_give i \<Rightarrow>
          (if Other i \<in> holders s
           then Some (s\<lparr>holders := holders s - {Other i}\<rparr>) else None)
      | Other_call i f \<Rightarrow>
          (if Other i \<in> holders s
           then Some (s\<lparr>gui := fst (f (gui s, bufs s)), bufs := snd (f (gui s, bufs s))\<rparr>)
           else None)
      | _ \<Rightarrow> None)"

text \<open>
  One scheduling step; \<open>None\<close> when the action cannot run in the state. After an abort
  nothing runs. \<^verbatim>\<open>guiTask\<close> at line 147 goes on when its take returns, with the value it
  returns. The timer fires once it has been started (line 136) and runs the callback of
  lines 213 to 218.
\<close>

definition sys_step ::
  "('g, 'b) library \<Rightarrow> config \<Rightarrow> platform \<Rightarrow> ('g, 'b) action \<Rightarrow> ('g, 'b) state
     \<Rightarrow> ('g, 'b) state option" where
  "sys_step lib cfg pf a s =
     (if pc s = Aborted then None
      else case a of
        Gui \<Rightarrow>
          (if pc s = Deleted then None
           else if pc s = L147
           then (case xSemaphoreTake_portMAX_DELAY (xGuiSemaphore s) (holders s) of
                   None \<Rightarrow> None
                 | Some r \<Rightarrow> Some (guiTask_step lib cfg pf r s))
           else Some (guiTask_step lib cfg pf pdFALSE s))
      | Tick \<Rightarrow> (if timer_running s then Some (lv_tick_task s) else None)
      | _ \<Rightarrow> other_task_step a s)"

text \<open>A schedule, run from a state.\<close>

primrec run ::
  "('g, 'b) library \<Rightarrow> config \<Rightarrow> platform \<Rightarrow> ('g, 'b) action list \<Rightarrow> ('g, 'b) state
     \<Rightarrow> ('g, 'b) state option" where
  "run lib cfg pf [] s = Some s"
| "run lib cfg pf (a # as) s =
     (case sys_step lib cfg pf a s of
        None \<Rightarrow> None
      | Some s' \<Rightarrow> run lib cfg pf as s')"

section \<open>Example configurations\<close>

text \<open>
  The SSD1306 of this project (monochrome, 128 by 64, no touch controller), a colour
  panel of 320 by 240 pixels with a touch controller, and an IL3820 e-paper panel.
\<close>

definition ssd1306_config :: config where
  "ssd1306_config =
     \<lparr>CONFIG_LV_TFT_DISPLAY_MONOCHROME = True,
      CONFIG_LV_TFT_DISPLAY_CONTROLLER_IL3820 = False,
      CONFIG_LV_TFT_DISPLAY_CONTROLLER_JD79653A = False,
      CONFIG_LV_TFT_DISPLAY_CONTROLLER_UC8151D = False,
      CONFIG_LV_TOUCH_CONTROLLER = 0, TOUCH_CONTROLLER_NONE = 0,
      DISP_BUF_SIZE = 8192\<rparr>"

definition colour_config :: config where
  "colour_config =
     \<lparr>CONFIG_LV_TFT_DISPLAY_MONOCHROME = False,
      CONFIG_LV_TFT_DISPLAY_CONTROLLER_IL3820 = False,
      CONFIG_LV_TFT_DISPLAY_CONTROLLER_JD79653A = False,
      CONFIG_LV_TFT_DISPLAY_CONTROLLER_UC8151D = False,
      CONFIG_LV_TOUCH_CONTROLLER = 1, TOUCH_CONTROLLER_NONE = 0,
      DISP_BUF_SIZE = 76800\<rparr>"

definition il3820_config :: config where
  "il3820_config =
     \<lparr>CONFIG_LV_TFT_DISPLAY_MONOCHROME = True,
      CONFIG_LV_TFT_DISPLAY_CONTROLLER_IL3820 = True,
      CONFIG_LV_TFT_DISPLAY_CONTROLLER_JD79653A = False,
      CONFIG_LV_TFT_DISPLAY_CONTROLLER_UC8151D = False,
      CONFIG_LV_TOUCH_CONTROLLER = 0, TOUCH_CONTROLLER_NONE = 0,
      DISP_BUF_SIZE = 4736\<rparr>"

text \<open>A boot on which every platform call succeeds, and boots on which one of them fails.\<close>

definition good_boot :: platform where
  "good_boot = \<lparr>xSemaphoreCreateMutex_ret = Some (Handle 1), esp_timer_create_ret = ESP_OK,
                esp_timer_start_periodic_ret = ESP_OK\<rparr>"

definition no_mutex_boot :: platform where
  "no_mutex_boot = \<lparr>xSemaphoreCreateMutex_ret = None, esp_timer_create_ret = ESP_OK,
                    esp_timer_start_periodic_ret = ESP_OK\<rparr>"

definition no_timer_boot :: platform where
  "no_timer_boot = \<lparr>xSemaphoreCreateMutex_ret = Some (Handle 1), esp_timer_create_ret = 257,
                    esp_timer_start_periodic_ret = ESP_OK\<rparr>"

text \<open>
  A library whose GUI state is the list of the calls made into it, and whose display
  buffers count them.
\<close>

definition recording_library :: "(event list, nat) library" where
  "recording_library =
     \<lparr>lv_disp_drv_init = \<lparr>flush_cb = None, rounder_cb = None, set_px_cb = None, buffer = None\<rparr>,
      lv_indev_drv_init = \<lparr>read_cb = None, indev_type = LV_INDEV_TYPE_NONE\<rparr>,
      lv_effect = (\<lambda>e t gb. (fst gb @ [e], Suc (snd gb)))\<rparr>"

section \<open>Projections of a statement\<close>

lemma call_sel [simp]:
  "pc (call e s) = pc s" "trace (call e s) = trace s @ [e]" "holders (call e s) = holders s"
  "xGuiSemaphore (call e s) = xGuiSemaphore s" "timer_running (call e s) = timer_running s"
  "sys_time (call e s) = sys_time s" "gui (call e s) = gui s" "bufs (call e s) = bufs s"
  by (simp_all add: call_def)

lemma lv_call_sel [simp]:
  "pc (lv_call lib e s) = pc s" "trace (lv_call lib e s) = trace s @ [e]"
  "holders (lv_call lib e s) = holders s"
  "xGuiSemaphore (lv_call lib e s) = xGuiSemaphore s"
  "timer_running (lv_call lib e s) = timer_running s"
  "sys_time (lv_call lib e s) = sys_time s"
  "gui (lv_call lib e s) = fst (lv_effect lib e (sys_time s) (gui s, bufs s))"
  "bufs (lv_call lib e s) = snd (lv_effect lib e (sys_time s) (gui s, bufs s))"
  by (simp_all add: lv_call_def Let_def)

lemma guiTask_step_pc:
  "pc (guiTask_step lib cfg pf r s) =
     (case pc s of
        L76 \<Rightarrow> L78 | L78 \<Rightarrow> L81 | L81 \<Rightarrow> L104 | L104 \<Rightarrow> L107 | L107 \<Rightarrow> L108
      | L108 \<Rightarrow> (if CONFIG_LV_TOUCH_CONTROLLER cfg \<noteq> TOUCH_CONTROLLER_NONE cfg then L124 else L135)
      | L124 \<Rightarrow> L125 | L125 \<Rightarrow> L135
      | L135 \<Rightarrow> (if esp_timer_create_ret pf \<noteq> ESP_OK then Aborted else L136)
      | L136 \<Rightarrow> (if esp_timer_start_periodic_ret pf \<noteq> ESP_OK then Aborted else L139)
      | L139 \<Rightarrow> L141 | L141 \<Rightarrow> L144 | L144 \<Rightarrow> L147
      | L147 \<Rightarrow> (if pdTRUE = r then L149 else L141)
      | L149 \<Rightarrow> L150 | L150 \<Rightarrow> L141 | L155 \<Rightarrow> Deleted | Aborted \<Rightarrow> Aborted | Deleted \<Rightarrow> Deleted)"
  by (simp add: guiTask_step_def ESP_ERROR_CHECK_def Let_def split: pc.split)

lemma guiTask_step_trace:
  "trace (guiTask_step lib cfg pf r s) = trace s @
     (case pc s of
        L76 \<Rightarrow> [XSemaphoreCreateMutex] | L78 \<Rightarrow> [Lv_init] | L81 \<Rightarrow> [Lvgl_driver_init]
      | L104 \<Rightarrow> [Lv_disp_buf_init Disp_buf (Some Buf1) (buf2 cfg) (size_in_px cfg)]
      | L107 \<Rightarrow> [Lv_disp_drv_init]
      | L108 \<Rightarrow> [Lv_disp_drv_register (disp_drv lib cfg)]
      | L124 \<Rightarrow> [Lv_indev_drv_init] | L125 \<Rightarrow> [Lv_indev_drv_register (indev_drv lib)]
      | L135 \<Rightarrow> Esp_timer_create periodic_timer_args #
                 (if esp_timer_create_ret pf \<noteq> ESP_OK then [Abort] else [])
      | L136 \<Rightarrow> Esp_timer_start_periodic (LV_TICK_PERIOD_MS * 1000) #
                 (if esp_timer_start_periodic_ret pf \<noteq> ESP_OK then [Abort] else [])
      | L139 \<Rightarrow> [Create_demo_application] | L141 \<Rightarrow> []
      | L144 \<Rightarrow> [VTaskDelay (PdMS_TO_TICKS 10)]
      | L147 \<Rightarrow> [XSemaphoreTake (xGuiSemaphore s) PortMAX_DELAY r]
      | L149 \<Rightarrow> [Lv_task_handler] | L150 \<Rightarrow> [XSemaphoreGive (xGuiSemaphore s)]
      | L155 \<Rightarrow> [VTaskDelete] | Aborted \<Rightarrow> [] | Deleted \<Rightarrow> [])"
  by (simp add: guiTask_step_def ESP_ERROR_CHECK_def Let_def split: pc.split)

lemma guiTask_step_holders:
  "holders (guiTask_step lib cfg pf r s) =
     (if pc s = L147 \<and> pdTRUE = r then insert GuiTask (holders s)
      else if pc s = L150 then holders s - {GuiTask} else holders s)"
  by (simp add: guiTask_step_def ESP_ERROR_CHECK_def Let_def split: pc.split)

lemma guiTask_step_xGuiSemaphore:
  "xGuiSemaphore (guiTask_step lib cfg pf r s) =
     (if pc s = L76 then xSemaphoreCreateMutex_ret pf else xGuiSemaphore s)"
  by (simp add: guiTask_step_def ESP_ERROR_CHECK_def Let_def split: pc.split)

lemma guiTask_step_timer_running:
  "timer_running (guiTask_step lib cfg pf r s) =
     (if pc s = L136 \<and> esp_timer_start_periodic_ret pf = ESP_OK then True else timer_running s)"
  by (simp add: guiTask_step_def ESP_ERROR_CHECK_def Let_def split: pc.split)

lemma guiTask_step_sys_time:
  "sys_time (guiTask_step lib cfg pf r s) = sys_time s"
  by (simp add: guiTask_step_def ESP_ERROR_CHECK_def Let_def split: pc.split)

lemmas guiTask_step_sel = guiTask_step_pc guiTask_step_trace guiTask_step_holders
  guiTask_step_xGuiSemaphore guiTask_step_timer_running guiTask_step_sys_time

section \<open>The startup sequence\<close>

lemma boot_sel [simp]:
  "pc (boot g b) = L76" "trace (boot g b) = []" "holders (boot g b) = {}"
  "xGuiSemaphore (boot g b) = None" "timer_running (boot g b) = False"
  "sys_time (boot g b) = 0" "gui (boot g b) = g" "bufs (boot g b) = b"
  by (simp_all add: boot_def)

lemma startup_pc:
  "pc (startup lib cfg pf g b) =
     (if esp_timer_create_ret pf = ESP_OK \<and> esp_timer_start_periodic_ret pf = ESP_OK
      then L141 else Aborted)"
  by (simp add: startup_def eval_nat_numeral guiTask_step_pc)

lemma startup_trace:
  "trace (startup lib cfg pf g b) =
    [XSemaphoreCreateMutex, Lv_init, Lvgl_driver_init,
     Lv_disp_buf_init Disp_buf (Some Buf1) (buf2 cfg) (size_in_px cfg),
     Lv_disp_drv_init, Lv_disp_drv_register (disp_drv lib cfg)]
    @ (if CONFIG_LV_TOUCH_CONTROLLER cfg \<noteq> TOUCH_CONTROLLER_NONE cfg
       then [Lv_indev_drv_init, Lv_indev_drv_register (indev_drv lib)] else [])
    @ Esp_timer_create periodic_timer_args #
      (if esp_timer_create_ret pf \<noteq> ESP_OK then [Abort]
       else Esp_timer_start_periodic (LV_TICK_PERIOD_MS * 1000) #
         (if esp_timer_start_periodic_ret pf \<noteq> ESP_OK then [Abort]
          else [Create_demo_application]))"
  by (simp add: startup_def eval_nat_numeral guiTask_step_pc guiTask_step_trace)

lemma startup_holders: "holders (startup lib cfg pf g b) = {}"
  by (simp add: startup_def eval_nat_numeral guiTask_step_pc guiTask_step_holders)

lemma startup_xGuiSemaphore:
  "xGuiSemaphore (startup lib cfg pf g b) = xSemaphoreCreateMutex_ret pf"
  by (simp add: startup_def eval_nat_numeral guiTask_step_pc guiTask_step_xGuiSemaphore)

lemma startup_timer_running:
  "timer_running (startup lib cfg pf g b) =
     (esp_timer_create_ret pf = ESP_OK \<and> esp_timer_start_periodic_ret pf = ESP_OK)"
  by (simp add: startup_def eval_nat_numeral guiTask_step_pc guiTask_step_timer_running)

section \<open>What the startup sequence registers\<close>

lemma disp_buf_inits_simps [simp]:
  "disp_buf_inits [] = []"
  "disp_buf_inits (e # es) =
     (case e of Lv_disp_buf_init _ b1 b2 n \<Rightarrow> [(b1, b2, n)] | _ \<Rightarrow> []) @ disp_buf_inits es"
  "disp_buf_inits (es @ es') = disp_buf_inits es @ disp_buf_inits es'"
  by (simp_all add: disp_buf_inits_def)

lemma disp_drv_registers_simps [simp]:
  "disp_drv_registers [] = []"
  "disp_drv_registers (e # es) =
     (case e of Lv_disp_drv_register d \<Rightarrow> [d] | _ \<Rightarrow> []) @ disp_drv_registers es"
  "disp_drv_registers (es @ es') = disp_drv_registers es @ disp_drv_registers es'"
  by (simp_all add: disp_drv_registers_def)

lemma startup_disp_buf_inits:
  "disp_buf_inits (trace (startup lib cfg pf g b)) = [(Some Buf1, buf2 cfg, size_in_px cfg)]"
  by (simp add: startup_trace)

lemma startup_disp_drv_registers:
  "disp_drv_registers (trace (startup lib cfg pf g b)) = [disp_drv lib cfg]"
  by (simp add: startup_trace)

section \<open>One pass of the loop on its own\<close>

lemma loop_iteration_pc:
  "pc s = L141 \<Longrightarrow> pc (loop_iteration lib cfg pf r s) = L141"
  by (simp add: loop_iteration_def eval_nat_numeral Let_def guiTask_step_pc)

lemma loop_iteration_trace:
  "pc s = L141 \<Longrightarrow>
   trace (loop_iteration lib cfg pf r s) =
     trace s @ [VTaskDelay (PdMS_TO_TICKS 10), XSemaphoreTake (xGuiSemaphore s) PortMAX_DELAY r]
       @ (if pdTRUE = r then [Lv_task_handler, XSemaphoreGive (xGuiSemaphore s)] else [])"
  by (simp add: loop_iteration_def eval_nat_numeral Let_def guiTask_step_pc guiTask_step_trace
      guiTask_step_xGuiSemaphore)

lemma loop_iteration_holders:
  "pc s = L141 \<Longrightarrow>
   holders (loop_iteration lib cfg pf r s) =
     (if pdTRUE = r then holders s - {GuiTask} else holders s)"
  by (simp add: loop_iteration_def eval_nat_numeral Let_def guiTask_step_pc guiTask_step_holders)

lemma new_calls_append [simp]:
  "trace s' = trace s @ es \<Longrightarrow> new_calls s s' = es"
  by (simp add: new_calls_def)

lemma loop_iteration_not_taken:
  assumes "pc s = L141" and "pdTRUE \<noteq> r"
  shows "loop_iteration lib cfg pf r s =
     s\<lparr>trace := trace s @ [VTaskDelay (PdMS_TO_TICKS 10),
                              XSemaphoreTake (xGuiSemaphore s) PortMAX_DELAY r]\<rparr>"
proof -
  let ?s1 = "guiTask_step lib cfg pf r s"
  let ?s2 = "guiTask_step lib cfg pf r ?s1"
  let ?s3 = "guiTask_step lib cfg pf r ?s2"
  have s1: "?s1 = s\<lparr>pc := L144\<rparr>"
    using assms by (simp add: guiTask_step_def)
  have s2: "?s2 = s\<lparr>pc := L147, trace := trace s @ [VTaskDelay (PdMS_TO_TICKS 10)]\<rparr>"
    by (simp add: s1) (simp add: guiTask_step_def call_def)
  have s3: "?s3 = s\<lparr>pc := L141, trace := trace s @ [VTaskDelay (PdMS_TO_TICKS 10),
      XSemaphoreTake (xGuiSemaphore s) PortMAX_DELAY r]\<rparr>"
    using assms(2) by (simp add: s2) (simp add: guiTask_step_def call_def Let_def)
  have "loop_iteration lib cfg pf r s = ?s3"
    using assms by (simp add: loop_iteration_def eval_nat_numeral Let_def guiTask_step_pc)
  also have "\<dots> = s\<lparr>trace := trace s @ [VTaskDelay (PdMS_TO_TICKS 10),
      XSemaphoreTake (xGuiSemaphore s) PortMAX_DELAY r]\<rparr>"
    using assms(1) by (simp add: s3)
  finally show ?thesis .
qed

lemma loop_iteration_idle:
  assumes "pc s = L141" and "GuiTask \<notin> holders s"
    and idle: "lv_effect lib Lv_task_handler (sys_time s) (gui s, bufs s) = (gui s, bufs s)"
  shows "loop_iteration lib cfg pf pdTRUE s =
     s\<lparr>trace := trace s @ iteration_calls (xGuiSemaphore s)\<rparr>"
proof -
  let ?s1 = "guiTask_step lib cfg pf pdTRUE s"
  let ?s2 = "guiTask_step lib cfg pf pdTRUE ?s1"
  let ?s3 = "guiTask_step lib cfg pf pdTRUE ?s2"
  let ?s4 = "guiTask_step lib cfg pf pdTRUE ?s3"
  let ?s5 = "guiTask_step lib cfg pf pdTRUE ?s4"
  have s1: "?s1 = s\<lparr>pc := L144\<rparr>"
    using assms(1) by (simp add: guiTask_step_def)
  have s2: "?s2 = s\<lparr>pc := L147, trace := trace s @ [VTaskDelay (PdMS_TO_TICKS 10)]\<rparr>"
    by (simp add: s1) (simp add: guiTask_step_def call_def)
  have s3: "?s3 = s\<lparr>pc := L149, holders := insert GuiTask (holders s),
      trace := trace s @ [VTaskDelay (PdMS_TO_TICKS 10),
        XSemaphoreTake (xGuiSemaphore s) PortMAX_DELAY pdTRUE]\<rparr>"
    by (simp add: s2) (simp add: guiTask_step_def call_def Let_def)
  have s4: "?s4 = s\<lparr>pc := L150, holders := insert GuiTask (holders s),
      trace := trace s @ [VTaskDelay (PdMS_TO_TICKS 10),
        XSemaphoreTake (xGuiSemaphore s) PortMAX_DELAY pdTRUE, Lv_task_handler]\<rparr>"
    by (simp add: s3) (simp add: guiTask_step_def lv_call_def Let_def idle)
  have s5: "?s5 = s\<lparr>pc := L141, holders := holders s,
      trace := trace s @ iteration_calls (xGuiSemaphore s)\<rparr>"
    using assms(2) by (simp add: s4) (simp add: guiTask_step_def call_def iteration_calls_def)
  have "loop_iteration lib cfg pf pdTRUE s = ?s5"
    using assms(1) by (simp add: loop_iteration_def eval_nat_numeral Let_def guiTask_step_pc)
  also have "\<dots> = s\<lparr>trace := trace s @ iteration_calls (xGuiSemaphore s)\<rparr>"
    using assms(1) by (simp add: s5)
  finally show ?thesis .
qed

section \<open>After an abort\<close>

lemma sys_step_Aborted: "pc s = Aborted \<Longrightarrow> sys_step lib cfg pf a s = None"
  by (simp add: sys_step_def)

lemma guiTask_step_Aborted: "pc s = Aborted \<Longrightarrow> guiTask_step lib cfg pf r s = s"
  by (simp add: guiTask_step_def)

section \<open>Scheduling steps\<close>

lemma lv_tick_task_sel [simp]:
  "pc (lv_tick_task s) = pc s" "trace (lv_tick_task s) = trace s"
  "holders (lv_tick_task s) = holders s" "xGuiSemaphore (lv_tick_task s) = xGuiSemaphore s"
  "timer_running (lv_tick_task s) = timer_running s"
  "sys_time (lv_tick_task s) = sys_time s + LV_TICK_PERIOD_MS"
  "gui (lv_tick_task s) = gui s" "bufs (lv_tick_task s) = bufs s"
  by (simp_all add: lv_tick_task_def lv_tick_inc_def)

lemma sys_step_Gui:
  "sys_step lib cfg pf Gui s =
     (if pc s = Aborted \<or> pc s = Deleted then None
      else if pc s = L147
      then (if xGuiSemaphore s \<noteq> None \<and> holders s = {}
            then Some (guiTask_step lib cfg pf pdTRUE s) else None)
      else Some (guiTask_step lib cfg pf pdFALSE s))"
  unfolding sys_step_def xSemaphoreTake_portMAX_DELAY_def
  by (cases "xGuiSemaphore s") simp_all

lemma sys_step_others:
  "sys_step lib cfg pf Tick s =
     (if pc s \<noteq> Aborted \<and> timer_running s then Some (lv_tick_task s) else None)"
  "sys_step lib cfg pf (Other_take i) s =
     (if pc s \<noteq> Aborted \<and> xGuiSemaphore s \<noteq> None \<and> holders s = {}
      then Some (s\<lparr>holders := {Other i}\<rparr>) else None)"
  "sys_step lib cfg pf (Other_give i) s =
     (if pc s \<noteq> Aborted \<and> Other i \<in> holders s
      then Some (s\<lparr>holders := holders s - {Other i}\<rparr>) else None)"
  "sys_step lib cfg pf (Other_call i f) s =
     (if pc s \<noteq> Aborted \<and> Other i \<in> holders s
      then Some (s\<lparr>gui := fst (f (gui s, bufs s)), bufs := snd (f (gui s, bufs s))\<rparr>)
      else None)"
  unfolding sys_step_def other_task_step_def by simp_all

lemma sys_stepE:
  assumes "sys_step lib cfg pf a s = Some s'"
  obtains
    (gui_take) "a = Gui" and "pc s = L147" and "xGuiSemaphore s \<noteq> None" and "holders s = {}"
      and "s' = guiTask_step lib cfg pf pdTRUE s"
  | (gui_other) "a = Gui" and "pc s \<noteq> L147" and "pc s \<noteq> Aborted" and "pc s \<noteq> Deleted"
      and "s' = guiTask_step lib cfg pf pdFALSE s"
  | (tick) "a = Tick" and "pc s \<noteq> Aborted" and "timer_running s" and "s' = lv_tick_task s"
  | (other_take) i where "a = Other_take i" and "pc s \<noteq> Aborted"
      and "xGuiSemaphore s \<noteq> None" and "holders s = {}" and "s' = s\<lparr>holders := {Other i}\<rparr>"
  | (other_give) i where "a = Other_give i" and "pc s \<noteq> Aborted" and "Other i \<in> holders s"
      and "s' = s\<lparr>holders := holders s - {Other i}\<rparr>"
  | (other_call) i f where "a = Other_call i f" and "pc s \<noteq> Aborted" and "Other i \<in> holders s"
      and "s' = s\<lparr>gui := fst (f (gui s, bufs s)), bufs := snd (f (gui s, bufs s))\<rparr>"
proof (cases a)
  case Gui
  show ?thesis
  proof (cases "pc s = L147")
    case True
    with assms Gui show ?thesis
      by (intro gui_take) (simp_all add: sys_step_Gui split: if_splits)
  next
    case False
    with assms Gui show ?thesis
      by (intro gui_other) (simp_all add: sys_step_Gui split: if_splits)
  qed
next
  case Tick
  with assms show ?thesis
    by (intro tick) (simp_all add: sys_step_others split: if_splits)
next
  case (Other_take i)
  with assms show ?thesis
    by (intro other_take [of i]) (simp_all add: sys_step_others split: if_splits)
next
  case (Other_give i)
  with assms show ?thesis
    by (intro other_give [of i]) (simp_all add: sys_step_others split: if_splits)
next
  case (Other_call i f)
  with assms show ?thesis
    by (intro other_call [of i f]) (simp_all add: sys_step_others split: if_splits)
qed

lemma guiTask_step_gui_unchanged:
  assumes "in_loop (pc s)" and "pc s \<noteq> L149"
  shows "gui (guiTask_step lib cfg pf r s) = gui s \<and> bufs (guiTask_step lib cfg pf r s) = bufs s"
proof -
  from assms consider "pc s = L141" | "pc s = L144" | "pc s = L147" | "pc s = L150"
    by (auto simp: in_loop_def)
  then show ?thesis
    by cases (simp_all add: guiTask_step_def Let_def)
qed

lemma run_invariant:
  assumes "run lib cfg pf sched s0 = Some s"
    and "P s0"
    and "\<And>a t t'. P t \<Longrightarrow> sys_step lib cfg pf a t = Some t' \<Longrightarrow> P t'"
  shows "P s"
  using assms(1,2)
proof (induction sched arbitrary: s0)
  case Nil
  then show ?case by simp
next
  case (Cons a sched)
  from Cons.prems(1) obtain t where step: "sys_step lib cfg pf a s0 = Some t"
    and rest: "run lib cfg pf sched t = Some s"
    by (auto split: option.splits)
  from assms(3) [OF Cons.prems(2) step] have "P t" .
  with rest show ?case by (rule Cons.IH)
qed

lemmas run_eval = sys_step_Gui sys_step_others guiTask_step_pc guiTask_step_holders
  guiTask_step_xGuiSemaphore guiTask_step_timer_running

section \<open>The lock\<close>

lemma lock_invariant_step:
  assumes inv: "(holders s = {} \<or> (\<exists>t. holders s = {t}))
      \<and> (GuiTask \<in> holders s) = (pc s = L149 \<or> pc s = L150)"
    and step: "sys_step lib cfg pf a s = Some s'"
  shows "(holders s' = {} \<or> (\<exists>t. holders s' = {t}))
      \<and> (GuiTask \<in> holders s') = (pc s' = L149 \<or> pc s' = L150)"
  using step
proof (cases rule: sys_stepE)
  case gui_take
  then show ?thesis
    by (simp add: guiTask_step_sel)
next
  case gui_other
  with inv show ?thesis
    by (cases "pc s") (auto simp: guiTask_step_sel pdTRUE_def pdFALSE_def)
next
  case tick
  with inv show ?thesis by simp
next
  case (other_take i)
  with inv show ?thesis by auto
next
  case (other_give i)
  with inv show ?thesis by auto
next
  case (other_call i f)
  with inv show ?thesis by simp
qed

lemma lock_invariant:
  assumes "run lib cfg pf sched (boot g b) = Some s"
  shows "(holders s = {} \<or> (\<exists>t. holders s = {t}))
      \<and> (GuiTask \<in> holders s) = (pc s = L149 \<or> pc s = L150)"
  using assms
proof (rule run_invariant)
  show "(holders (boot g b) = {} \<or> (\<exists>t. holders (boot g b) = {t}))
      \<and> (GuiTask \<in> holders (boot g b)) = (pc (boot g b) = L149 \<or> pc (boot g b) = L150)"
    by simp
next
  fix a and t t' :: "('a, 'b) state"
  assume "(holders t = {} \<or> (\<exists>u. holders t = {u}))
      \<and> (GuiTask \<in> holders t) = (pc t = L149 \<or> pc t = L150)"
    and "sys_step lib cfg pf a t = Some t'"
  then show "(holders t' = {} \<or> (\<exists>u. holders t' = {u}))
      \<and> (GuiTask \<in> holders t') = (pc t' = L149 \<or> pc t' = L150)"
    by (rule lock_invariant_step)
qed

lemma actor_simps [simp]:
  "actor Gui = Some GuiTask" "actor Tick = None" "actor (Other_take i) = Some (Other i)"
  "actor (Other_give i) = Some (Other i)" "actor (Other_call i f) = Some (Other i)"
  by (simp_all add: actor_def)

lemma sole_holder:
  assumes "holders s = {} \<or> (\<exists>t. holders s = {t})" and "u \<in> holders s"
  shows "holders s = {u}"
  using assms by auto

lemma mutation_needs_lock:
  assumes inv: "(holders s = {} \<or> (\<exists>t. holders s = {t}))
      \<and> (GuiTask \<in> holders s) = (pc s = L149 \<or> pc s = L150)"
    and loop: "in_loop (pc s)"
    and step: "sys_step lib cfg pf a s = Some s'"
    and changed: "gui s' \<noteq> gui s \<or> bufs s' \<noteq> bufs s"
  shows "\<exists>t. actor a = Some t \<and> holders s = {t}"
  using step
proof (cases rule: sys_stepE)
  case gui_take
  have "gui s' = gui s \<and> bufs s' = bufs s"
    unfolding gui_take(5) by (rule guiTask_step_gui_unchanged) (simp_all add: gui_take(2) in_loop_def)
  with changed show ?thesis by simp
next
  case gui_other
  have "pc s = L149"
  proof (rule ccontr)
    assume "pc s \<noteq> L149"
    with loop have "gui s' = gui s \<and> bufs s' = bufs s"
      unfolding gui_other(5) by (rule guiTask_step_gui_unchanged)
    with changed show False by simp
  qed
  with inv have "GuiTask \<in> holders s" by simp
  with inv have "holders s = {GuiTask}" by (intro sole_holder) simp_all
  with gui_other(1) show ?thesis by simp
next
  case tick
  then have "gui s' = gui s \<and> bufs s' = bufs s" by simp
  with changed show ?thesis by simp
next
  case (other_take i)
  then have "gui s' = gui s \<and> bufs s' = bufs s" by simp
  with changed show ?thesis by simp
next
  case (other_give i)
  then have "gui s' = gui s \<and> bufs s' = bufs s" by simp
  with changed show ?thesis by simp
next
  case (other_call i f)
  from inv other_call(3) have "holders s = {Other i}" by (intro sole_holder) simp_all
  with other_call(1) show ?thesis by simp
qed

lemma guiTask_step_L139_gui:
  "pc s = L139 \<Longrightarrow>
   gui (guiTask_step lib cfg pf r s) =
     fst (lv_effect lib Create_demo_application (sys_time s) (gui s, bufs s))"
  by (simp add: guiTask_step_def)

section \<open>The calls of the loop\<close>

lemma concat_replicate_Suc_right:
  "concat (replicate (Suc n) xs) = concat (replicate n xs) @ xs"
  by (induction n) simp_all

lemma iteration_calls_take:
  "take 0 (iteration_calls h) = []"
  "take (Suc 0) (iteration_calls h) = [VTaskDelay (PdMS_TO_TICKS 10)]"
  "take 2 (iteration_calls h) =
     [VTaskDelay (PdMS_TO_TICKS 10), XSemaphoreTake h PortMAX_DELAY pdTRUE]"
  "take 3 (iteration_calls h) =
     [VTaskDelay (PdMS_TO_TICKS 10), XSemaphoreTake h PortMAX_DELAY pdTRUE, Lv_task_handler]"
  by (simp_all add: iteration_calls_def eval_nat_numeral)

lemma calls_done_simps [simp]:
  "calls_done L141 = 0" "calls_done L144 = 0" "calls_done L147 = 1"
  "calls_done L149 = 2" "calls_done L150 = 3"
  by (simp_all add: calls_done_def)

lemma loop_invariant_step:
  assumes loop: "in_loop (pc s)"
    and sem: "xGuiSemaphore s = h"
    and tr: "trace s = tr0 @ concat (replicate n (iteration_calls h))
        @ take (calls_done (pc s)) (iteration_calls h)"
    and lock: "(GuiTask \<in> holders s) = (pc s = L149 \<or> pc s = L150)"
    and step: "sys_step lib cfg pf a s = Some s'"
  shows "in_loop (pc s') \<and> xGuiSemaphore s' = h
    \<and> (\<exists>m. trace s' = tr0 @ concat (replicate m (iteration_calls h))
          @ take (calls_done (pc s')) (iteration_calls h))
    \<and> (GuiTask \<in> holders s') = (pc s' = L149 \<or> pc s' = L150)"
  using step
proof (cases rule: sys_stepE)
  case gui_take
  have "trace s' = tr0 @ concat (replicate n (iteration_calls h))
      @ take (calls_done (pc s')) (iteration_calls h)"
    using tr sem by (simp add: gui_take guiTask_step_sel iteration_calls_take)
  then show ?thesis
    using sem by (auto simp: gui_take guiTask_step_sel in_loop_def)
next
  case gui_other
  from loop gui_other(2) consider "pc s = L141" | "pc s = L144" | "pc s = L149" | "pc s = L150"
    by (auto simp: in_loop_def)
  then show ?thesis
  proof cases
    case 1
    with tr have "trace s' = tr0 @ concat (replicate n (iteration_calls h))
        @ take (calls_done (pc s')) (iteration_calls h)"
      by (simp add: gui_other(5) guiTask_step_sel)
    then show ?thesis
      using 1 sem lock by (auto simp: gui_other(5) guiTask_step_sel in_loop_def)
  next
    case 2
    with tr have "trace s' = tr0 @ concat (replicate n (iteration_calls h))
        @ take (calls_done (pc s')) (iteration_calls h)"
      by (simp add: gui_other(5) guiTask_step_sel iteration_calls_take pdTRUE_def pdFALSE_def)
    then show ?thesis
      using 2 sem lock
      by (auto simp: gui_other(5) guiTask_step_sel in_loop_def pdTRUE_def pdFALSE_def)
  next
    case 3
    with tr have "trace s' = tr0 @ concat (replicate n (iteration_calls h))
        @ take (calls_done (pc s')) (iteration_calls h)"
      by (simp add: gui_other(5) guiTask_step_sel iteration_calls_take)
    then show ?thesis
      using 3 sem lock by (auto simp: gui_other(5) guiTask_step_sel in_loop_def)
  next
    case 4
    with tr sem have "trace s' = tr0 @ concat (replicate n (iteration_calls h)) @ iteration_calls h"
      by (simp add: gui_other(5) guiTask_step_sel iteration_calls_take) (simp add: iteration_calls_def)
    moreover have "concat (replicate (Suc n) (iteration_calls h)) =
        concat (replicate n (iteration_calls h)) @ iteration_calls h"
      by (rule concat_replicate_Suc_right)
    moreover have "pc s' = L141"
      using 4 by (simp add: gui_other(5) guiTask_step_sel)
    ultimately have "trace s' = tr0 @ concat (replicate (Suc n) (iteration_calls h))
        @ take (calls_done (pc s')) (iteration_calls h)"
      by simp
    then have "\<exists>m. trace s' = tr0 @ concat (replicate m (iteration_calls h))
        @ take (calls_done (pc s')) (iteration_calls h)" ..
    then show ?thesis
      using 4 sem by (simp add: gui_other(5) guiTask_step_sel in_loop_def)
  qed
next
  case tick
  with loop sem tr lock show ?thesis by auto
next
  case (other_take i)
  with loop sem tr lock show ?thesis by auto
next
  case (other_give i)
  with loop sem tr lock show ?thesis by auto
next
  case (other_call i f)
  with loop sem tr lock show ?thesis by auto
qed

lemma loop_invariant:
  assumes "pc s0 = L141" and "GuiTask \<notin> holders s0"
    and "run lib cfg pf sched s0 = Some s"
  shows "in_loop (pc s) \<and> xGuiSemaphore s = xGuiSemaphore s0
    \<and> (\<exists>m. trace s = trace s0 @ concat (replicate m (iteration_calls (xGuiSemaphore s0)))
          @ take (calls_done (pc s)) (iteration_calls (xGuiSemaphore s0)))
    \<and> (GuiTask \<in> holders s) = (pc s = L149 \<or> pc s = L150)"
  using assms(3)
proof (rule run_invariant)
  have "trace s0 = trace s0 @ concat (replicate 0 (iteration_calls (xGuiSemaphore s0)))
      @ take (calls_done (pc s0)) (iteration_calls (xGuiSemaphore s0))"
    using assms(1) by simp
  then have "\<exists>m. trace s0 = trace s0 @ concat (replicate m (iteration_calls (xGuiSemaphore s0)))
      @ take (calls_done (pc s0)) (iteration_calls (xGuiSemaphore s0))" ..
  then show "in_loop (pc s0) \<and> xGuiSemaphore s0 = xGuiSemaphore s0
    \<and> (\<exists>m. trace s0 = trace s0 @ concat (replicate m (iteration_calls (xGuiSemaphore s0)))
          @ take (calls_done (pc s0)) (iteration_calls (xGuiSemaphore s0)))
    \<and> (GuiTask \<in> holders s0) = (pc s0 = L149 \<or> pc s0 = L150)"
    using assms(1,2) by (simp add: in_loop_def)
next
  fix a and t t' :: "('a, 'b) state"
  assume inv: "in_loop (pc t) \<and> xGuiSemaphore t = xGuiSemaphore s0
    \<and> (\<exists>m. trace t = trace s0 @ concat (replicate m (iteration_calls (xGuiSemaphore s0)))
          @ take (calls_done (pc t)) (iteration_calls (xGuiSemaphore s0)))
    \<and> (GuiTask \<in> holders t) = (pc t = L149 \<or> pc t = L150)"
    and step: "sys_step lib cfg pf a t = Some t'"
  from inv obtain m where
    "trace t = trace s0 @ concat (replicate m (iteration_calls (xGuiSemaphore s0)))
          @ take (calls_done (pc t)) (iteration_calls (xGuiSemaphore s0))"
    by blast
  with inv step
  show "in_loop (pc t') \<and> xGuiSemaphore t' = xGuiSemaphore s0
    \<and> (\<exists>m. trace t' = trace s0 @ concat (replicate m (iteration_calls (xGuiSemaphore s0)))
          @ take (calls_done (pc t')) (iteration_calls (xGuiSemaphore s0)))
    \<and> (GuiTask \<in> holders t') = (pc t' = L149 \<or> pc t' = L150)"
    by (intro loop_invariant_step [of t _ _ m]) simp_all
qed

section \<open>The clock\<close>

lemma sys_step_sys_time:
  assumes "sys_step lib cfg pf a s = Some s'"
  shows "sys_time s' = sys_time s + (if a = Tick then LV_TICK_PERIOD_MS else 0)"
  using assms
  by (cases rule: sys_stepE) (simp_all add: guiTask_step_sys_time)

lemma run_sys_time:
  "run lib cfg pf sched s0 = Some s \<Longrightarrow>
   sys_time s = sys_time s0 + count_list sched Tick * LV_TICK_PERIOD_MS"
proof (induction sched arbitrary: s0)
  case Nil
  then show ?case by simp
next
  case (Cons a sched)
  from Cons.prems obtain t where step: "sys_step lib cfg pf a s0 = Some t"
    and rest: "run lib cfg pf sched t = Some s"
    by (auto split: option.splits)
  from Cons.IH [OF rest] sys_step_sys_time [OF step] show ?case
    by simp
qed

lemma funpow_tick: "sys_time ((lv_tick_task ^^ N) s) = sys_time s + N * LV_TICK_PERIOD_MS"
  by (induction N) simp_all

section \<open>The steady-state loop\<close>

text \<open>
  Claim C1. From the head of the loop, with the lock created and not held by \<^verbatim>\<open>guiTask\<close>,
  and under every schedule of \<^verbatim>\<open>guiTask\<close>, the timer and the other tasks: the calls
  \<^verbatim>\<open>guiTask\<close> has made are whole passes, each of them the sleep of 10 ms, the take of the
  lock with \<^verbatim>\<open>portMAX_DELAY\<close> returning \<^verbatim>\<open>pdTRUE\<close>, one work-processing call and the give,
  followed by the calls of the pass under way in the same order; \<^verbatim>\<open>guiTask\<close> holds the
  lock exactly from the return of the take to the give, so during the work-processing
  call; it never leaves the loop (it reaches neither line 155 nor an abort); and it can
  always take its next step, except while it waits at line 147 for a lock that another
  task holds.
\<close>

theorem steady_state_loop:
  assumes "pc s0 = L141" and "GuiTask \<notin> holders s0" and "xGuiSemaphore s0 \<noteq> None"
    and "run lib cfg pf sched s0 = Some s"
  shows "in_loop (pc s)
    \<and> (\<exists>n. new_calls s0 s = concat (replicate n (iteration_calls (xGuiSemaphore s0)))
          @ take (calls_done (pc s)) (iteration_calls (xGuiSemaphore s0)))
    \<and> (GuiTask \<in> holders s) = (pc s = L149 \<or> pc s = L150)
    \<and> (sys_step lib cfg pf Gui s = None \<longrightarrow> pc s = L147 \<and> holders s \<noteq> {})"
proof -
  note inv = loop_invariant [OF assms(1,2,4)]
  from inv obtain m where
    "trace s = trace s0 @ concat (replicate m (iteration_calls (xGuiSemaphore s0)))
          @ take (calls_done (pc s)) (iteration_calls (xGuiSemaphore s0))"
    by blast
  then have "new_calls s0 s = concat (replicate m (iteration_calls (xGuiSemaphore s0)))
          @ take (calls_done (pc s)) (iteration_calls (xGuiSemaphore s0))"
    by (rule new_calls_append)
  then have calls: "\<exists>n. new_calls s0 s = concat (replicate n (iteration_calls (xGuiSemaphore s0)))
          @ take (calls_done (pc s)) (iteration_calls (xGuiSemaphore s0))" ..
  have blocked: "pc s = L147 \<and> holders s \<noteq> {}" if "sys_step lib cfg pf Gui s = None"
    using that inv assms(3) by (auto simp: sys_step_Gui in_loop_def split: if_splits)
  show ?thesis
    using inv calls blocked by blast
qed

theorem steady_state_loop_witness:
  "\<exists>s. run recording_library ssd1306_config good_boot
          [Gui, Tick, Gui, Gui, Gui, Gui, Other_take 3, Gui, Gui]
          (startup recording_library ssd1306_config good_boot [] 0) = Some s
       \<and> pc s = L147 \<and> in_loop (pc s) \<and> holders s = {Other 3}
       \<and> sys_step recording_library ssd1306_config good_boot Gui s = None"
proof -
  let ?s0 = "startup recording_library ssd1306_config good_boot [] 0"
  have pc0: "pc ?s0 = L141"
    by (simp add: startup_pc good_boot_def)
  have free: "GuiTask \<notin> holders ?s0"
    by (simp add: startup_holders)
  have h: "xGuiSemaphore ?s0 \<noteq> None"
    by (simp add: startup_xGuiSemaphore good_boot_def)
  have tm: "timer_running ?s0"
    by (simp add: startup_timer_running good_boot_def)
  have "\<exists>s. run recording_library ssd1306_config good_boot
          [Gui, Tick, Gui, Gui, Gui, Gui, Other_take 3, Gui, Gui] ?s0 = Some s
       \<and> pc s = L147 \<and> holders s = {Other 3}"
    using pc0 h tm by (simp add: run_eval startup_holders pdTRUE_def pdFALSE_def)
  then obtain s where r: "run recording_library ssd1306_config good_boot
          [Gui, Tick, Gui, Gui, Gui, Gui, Other_take 3, Gui, Gui] ?s0 = Some s"
    and pc: "pc s = L147" and held: "holders s = {Other 3}"
    by blast
  from steady_state_loop [OF pc0 free h r] have "in_loop (pc s)" by blast
  moreover have "sys_step recording_library ssd1306_config good_boot Gui s = None"
    using pc held by (simp add: sys_step_Gui)
  ultimately show ?thesis
    using r pc held by blast
qed

section \<open>Counting ticks\<close>

text \<open>
  Claim C2. After \<open>N\<close> firings of the tick callback from boot the logical clock is
  \<open>N * LV_TICK_PERIOD_MS\<close>, and the period is 1 ms. Each firing advances the clock by
  exactly the period, so the clock never decreases; and under every schedule of
  \<^verbatim>\<open>guiTask\<close>, the timer and the other tasks the clock is the number of firings times the
  period: nothing else writes it.
\<close>

theorem tick_count:
  "sys_time ((lv_tick_task ^^ N) (boot g b)) = N * LV_TICK_PERIOD_MS
   \<and> LV_TICK_PERIOD_MS = 1
   \<and> sys_time ((lv_tick_task ^^ N) s) = sys_time s + N * LV_TICK_PERIOD_MS
   \<and> sys_time (lv_tick_task s) = sys_time s + LV_TICK_PERIOD_MS
   \<and> sys_time s \<le> sys_time (lv_tick_task s)
   \<and> (run lib cfg pf sched (boot g b) = Some s' \<longrightarrow>
        sys_time s' = count_list sched Tick * LV_TICK_PERIOD_MS)"
proof -
  have "sys_time s' = count_list sched Tick * LV_TICK_PERIOD_MS"
    if "run lib cfg pf sched (boot g b) = Some s'"
    using run_sys_time [OF that] by simp
  then show ?thesis
    by (simp add: funpow_tick) (simp add: LV_TICK_PERIOD_MS_def)
qed

theorem tick_count_witness:
  "\<exists>s. run recording_library ssd1306_config good_boot
          [Gui, Gui, Gui, Gui, Gui, Gui, Gui, Gui, Tick, Gui, Tick, Gui, Tick] (boot [] 0) = Some s
       \<and> sys_time s = 3"
proof -
  have "\<exists>s. run recording_library ssd1306_config good_boot
          [Gui, Gui, Gui, Gui, Gui, Gui, Gui, Gui, Tick, Gui, Tick, Gui, Tick] (boot [] 0) = Some s"
    by (simp add: run_eval good_boot_def ssd1306_config_def pdTRUE_def pdFALSE_def ESP_OK_def)
  then obtain s where r: "run recording_library ssd1306_config good_boot
          [Gui, Gui, Gui, Gui, Gui, Gui, Gui, Gui, Tick, Gui, Tick, Gui, Tick] (boot [] 0) = Some s"
    by blast
  from tick_count [of 0 "[]" 0 s recording_library ssd1306_config good_boot
      "[Gui, Gui, Gui, Gui, Gui, Gui, Gui, Gui, Tick, Gui, Tick, Gui, Tick]" s] r
  have "sys_time s = 3" by simp
  with r show ?thesis by blast
qed

section \<open>The order of the startup sequence\<close>

text \<open>
  Claim C3. When both timer calls succeed, the startup sequence makes its calls in this
  order: create the GUI lock, initialise the GUI library, initialise the display and input
  hardware, register the display buffers and the display driver with its callbacks,
  register the input driver with its read callback when a touch controller is configured,
  create and start the periodic timer that runs the tick callback, build the widget
  tree. Only then does \<^verbatim>\<open>guiTask\<close> stand at the head of the loop, and the calls of the
  first pass of the loop come after all of them.
\<close>

theorem startup_order:
  assumes "esp_timer_create_ret pf = ESP_OK" and "esp_timer_start_periodic_ret pf = ESP_OK"
  shows "trace (startup lib cfg pf g b) =
      [XSemaphoreCreateMutex, Lv_init, Lvgl_driver_init,
       Lv_disp_buf_init Disp_buf (Some Buf1) (buf2 cfg) (size_in_px cfg),
       Lv_disp_drv_init, Lv_disp_drv_register (disp_drv lib cfg)]
      @ (if CONFIG_LV_TOUCH_CONTROLLER cfg \<noteq> TOUCH_CONTROLLER_NONE cfg
         then [Lv_indev_drv_init, Lv_indev_drv_register (indev_drv lib)] else [])
      @ [Esp_timer_create periodic_timer_args,
         Esp_timer_start_periodic (LV_TICK_PERIOD_MS * 1000),
         Create_demo_application]
    \<and> pc (startup lib cfg pf g b) = L141
    \<and> timer_running (startup lib cfg pf g b)
    \<and> new_calls (startup lib cfg pf g b) (loop_iteration lib cfg pf r (startup lib cfg pf g b)) =
        [VTaskDelay (PdMS_TO_TICKS 10), XSemaphoreTake (xSemaphoreCreateMutex_ret pf) PortMAX_DELAY r]
        @ (if pdTRUE = r then [Lv_task_handler, XSemaphoreGive (xSemaphoreCreateMutex_ret pf)] else [])
    \<and> flush_cb (disp_drv lib cfg) = Some Disp_driver_flush
    \<and> buffer (disp_drv lib cfg) = Some Disp_buf
    \<and> read_cb (indev_drv lib) = Some Touch_driver_read
    \<and> callback periodic_timer_args = Lv_tick_task"
proof -
  let ?s = "startup lib cfg pf g b"
  have pc: "pc ?s = L141"
    using assms by (simp add: startup_pc)
  have tr: "trace ?s =
      [XSemaphoreCreateMutex, Lv_init, Lvgl_driver_init,
       Lv_disp_buf_init Disp_buf (Some Buf1) (buf2 cfg) (size_in_px cfg),
       Lv_disp_drv_init, Lv_disp_drv_register (disp_drv lib cfg)]
      @ (if CONFIG_LV_TOUCH_CONTROLLER cfg \<noteq> TOUCH_CONTROLLER_NONE cfg
         then [Lv_indev_drv_init, Lv_indev_drv_register (indev_drv lib)] else [])
      @ [Esp_timer_create periodic_timer_args,
         Esp_timer_start_periodic (LV_TICK_PERIOD_MS * 1000),
         Create_demo_application]"
    using assms by (simp add: startup_trace)
  have run: "timer_running ?s"
    using assms by (simp add: startup_timer_running)
  have it: "new_calls ?s (loop_iteration lib cfg pf r ?s) =
        [VTaskDelay (PdMS_TO_TICKS 10), XSemaphoreTake (xSemaphoreCreateMutex_ret pf) PortMAX_DELAY r]
        @ (if pdTRUE = r then [Lv_task_handler, XSemaphoreGive (xSemaphoreCreateMutex_ret pf)] else [])"
    by (rule new_calls_append) (simp add: loop_iteration_trace [OF pc] startup_xGuiSemaphore)
  have cbs: "flush_cb (disp_drv lib cfg) = Some Disp_driver_flush"
    "buffer (disp_drv lib cfg) = Some Disp_buf"
    "read_cb (indev_drv lib) = Some Touch_driver_read"
    "callback periodic_timer_args = Lv_tick_task"
    by (simp_all add: disp_drv_def indev_drv_def periodic_timer_args_def Let_def)
  show ?thesis
    using pc tr run it cbs by blast
qed

theorem startup_order_witness:
  "esp_timer_create_ret good_boot = ESP_OK \<and> esp_timer_start_periodic_ret good_boot = ESP_OK
   \<and> map (\<lambda>e. case e of Lv_disp_drv_register _ \<Rightarrow> 1 | Lv_indev_drv_register _ \<Rightarrow> 2
             | Esp_timer_start_periodic _ \<Rightarrow> 3 | Create_demo_application \<Rightarrow> 4 | _ \<Rightarrow> (0::nat))
        (trace (startup recording_library colour_config good_boot [] 0))
       = [0, 0, 0, 0, 0, 1, 0, 2, 0, 3, 4]
   \<and> pc (startup recording_library colour_config good_boot [] 0) = L141"
proof -
  have a: "esp_timer_create_ret good_boot = ESP_OK"
    and b: "esp_timer_start_periodic_ret good_boot = ESP_OK"
    by (simp_all add: good_boot_def)
  have touch: "CONFIG_LV_TOUCH_CONTROLLER colour_config \<noteq> TOUCH_CONTROLLER_NONE colour_config"
    by (simp add: colour_config_def)
  show ?thesis
    using startup_order [OF a b, of recording_library colour_config "[]" 0 pdTRUE] a b touch
    by simp
qed

section \<open>Which startup failures are fatal\<close>

text \<open>
  Claim C4 says that every failure of the startup sequence is fatal, a failure to create
  the GUI lock included. \<^verbatim>\<open>guiTask\<close> does not test what \<^verbatim>\<open>xSemaphoreCreateMutex\<close> returns
  (line 76): on a boot where it returns \<^verbatim>\<open>NULL\<close> and the timer calls succeed, the
  sequence runs to its end, the timer is started, the widget tree is built, and
  \<^verbatim>\<open>guiTask\<close> stands at the head of the loop with a \<^verbatim>\<open>NULL\<close> lock.
\<close>

theorem null_mutex_is_not_fatal:
  "xSemaphoreCreateMutex_ret no_mutex_boot = None
   \<and> pc (startup recording_library ssd1306_config no_mutex_boot [] 0) = L141
   \<and> xGuiSemaphore (startup recording_library ssd1306_config no_mutex_boot [] 0) = None
   \<and> timer_running (startup recording_library ssd1306_config no_mutex_boot [] 0)
   \<and> trace (startup recording_library ssd1306_config no_mutex_boot [] 0) =
       [XSemaphoreCreateMutex, Lv_init, Lvgl_driver_init,
        Lv_disp_buf_init Disp_buf (Some Buf1) None 8192,
        Lv_disp_drv_init,
        Lv_disp_drv_register \<lparr>flush_cb = Some Disp_driver_flush,
          rounder_cb = Some Disp_driver_rounder, set_px_cb = Some Disp_driver_set_px,
          buffer = Some Disp_buf\<rparr>,
        Esp_timer_create periodic_timer_args, Esp_timer_start_periodic 1000,
        Create_demo_application]"
  by (simp add: startup_pc startup_xGuiSemaphore startup_timer_running startup_trace
      no_mutex_boot_def ssd1306_config_def buf2_def size_in_px_def disp_drv_def
      recording_library_def LV_TICK_PERIOD_MS_def)

text \<open>
  Claim C4, amended. A failure of \<^verbatim>\<open>esp_timer_create\<close> or of \<^verbatim>\<open>esp_timer_start_periodic\<close>
  is fatal, and these are the only fatal failures: the startup sequence aborts exactly
  when one of the two returns something other than \<^verbatim>\<open>ESP_OK\<close>. After the abort the last
  call is the abort, the widget tree has not been built, nothing runs any more, and a
  timer that could not be created is not started. Otherwise the sequence reaches the head
  of the loop without an abort, with the lock handle as \<^verbatim>\<open>xSemaphoreCreateMutex\<close>
  returned it, unchecked.
\<close>

theorem timer_failure_is_fatal:
  "(pc (startup lib cfg pf g b) = Aborted) =
      (esp_timer_create_ret pf \<noteq> ESP_OK \<or> esp_timer_start_periodic_ret pf \<noteq> ESP_OK)
   \<and> (pc (startup lib cfg pf g b) = Aborted \<longrightarrow>
        last (trace (startup lib cfg pf g b)) = Abort
        \<and> Create_demo_application \<notin> set (trace (startup lib cfg pf g b))
        \<and> (\<forall>a. sys_step lib cfg pf a (startup lib cfg pf g b) = None)
        \<and> (\<forall>r. guiTask_step lib cfg pf r (startup lib cfg pf g b) = startup lib cfg pf g b))
   \<and> (esp_timer_create_ret pf \<noteq> ESP_OK \<longrightarrow>
        (\<forall>n. Esp_timer_start_periodic n \<notin> set (trace (startup lib cfg pf g b)))
        \<and> \<not> timer_running (startup lib cfg pf g b))
   \<and> (pc (startup lib cfg pf g b) \<noteq> Aborted \<longrightarrow>
        pc (startup lib cfg pf g b) = L141
        \<and> Abort \<notin> set (trace (startup lib cfg pf g b))
        \<and> xGuiSemaphore (startup lib cfg pf g b) = xSemaphoreCreateMutex_ret pf)"
proof -
  let ?s = "startup lib cfg pf g b"
  have a: "(pc ?s = Aborted) =
      (esp_timer_create_ret pf \<noteq> ESP_OK \<or> esp_timer_start_periodic_ret pf \<noteq> ESP_OK)"
    by (simp add: startup_pc)
  have b1: "last (trace ?s) = Abort" if "pc ?s = Aborted"
    using that by (auto simp: startup_pc startup_trace split: if_splits)
  have b2: "Create_demo_application \<notin> set (trace ?s)" if "pc ?s = Aborted"
    using that by (auto simp: startup_pc startup_trace split: if_splits)
  have b3: "sys_step lib cfg pf a ?s = None" if "pc ?s = Aborted" for a
    using that by (rule sys_step_Aborted)
  have b4: "guiTask_step lib cfg pf r ?s = ?s" if "pc ?s = Aborted" for r
    using that by (rule guiTask_step_Aborted)
  have c: "(\<forall>n. Esp_timer_start_periodic n \<notin> set (trace ?s)) \<and> \<not> timer_running ?s"
    if "esp_timer_create_ret pf \<noteq> ESP_OK"
    using that by (auto simp: startup_trace startup_timer_running)
  have d: "pc ?s = L141 \<and> Abort \<notin> set (trace ?s)
      \<and> xGuiSemaphore ?s = xSemaphoreCreateMutex_ret pf" if "pc ?s \<noteq> Aborted"
    using that by (auto simp: startup_pc startup_trace startup_xGuiSemaphore split: if_splits)
  show ?thesis
    using a b1 b2 b3 b4 c d by blast
qed

theorem timer_failure_is_fatal_witness:
  "esp_timer_create_ret no_timer_boot \<noteq> ESP_OK
   \<and> pc (startup recording_library ssd1306_config no_timer_boot [] 0) = Aborted
   \<and> last (trace (startup recording_library ssd1306_config no_timer_boot [] 0)) = Abort
   \<and> sys_step recording_library ssd1306_config no_timer_boot Gui
        (startup recording_library ssd1306_config no_timer_boot [] 0) = None
   \<and> pc (startup recording_library ssd1306_config good_boot [] 0) = L141"
proof -
  have f: "esp_timer_create_ret no_timer_boot \<noteq> ESP_OK"
    by (simp add: no_timer_boot_def ESP_OK_def)
  have ok: "esp_timer_create_ret good_boot = ESP_OK \<and> esp_timer_start_periodic_ret good_boot = ESP_OK"
    by (simp add: good_boot_def)
  show ?thesis
    using timer_failure_is_fatal [of recording_library ssd1306_config no_timer_boot "[]" 0]
      timer_failure_is_fatal [of recording_library ssd1306_config good_boot "[]" 0] f ok
    by simp
qed

section \<open>The frame of the tick callback\<close>

text \<open>
  Claim C5. The tick callback advances the logical clock by exactly 1 ms and changes
  nothing else: the holders of the GUI lock, the lock handle, the GUI state, the display
  buffers, the calls and the position of \<^verbatim>\<open>guiTask\<close>, and the timer are as before.
\<close>

theorem tick_callback_frame:
  "lv_tick_task s = s\<lparr>sys_time := sys_time s + 1\<rparr>
   \<and> sys_time (lv_tick_task s) = sys_time s + 1
   \<and> holders (lv_tick_task s) = holders s
   \<and> xGuiSemaphore (lv_tick_task s) = xGuiSemaphore s
   \<and> gui (lv_tick_task s) = gui s
   \<and> bufs (lv_tick_task s) = bufs s
   \<and> trace (lv_tick_task s) = trace s
   \<and> pc (lv_tick_task s) = pc s
   \<and> timer_running (lv_tick_task s) = timer_running s"
  by (simp add: lv_tick_task_def lv_tick_inc_def LV_TICK_PERIOD_MS_def)

section \<open>Registration on a monochrome display\<close>

text \<open>
  Claim C6. When the monochrome display class is configured, the second buffer handed to
  \<^verbatim>\<open>lv_disp_buf_init\<close> is \<^verbatim>\<open>NULL\<close>, and the driver structure handed to
  \<^verbatim>\<open>lv_disp_drv_register\<close> carries the region-rounding callback and the per-pixel set
  callback. These are the only registrations of the startup sequence, and they are made
  before any platform result is tested, so they stand when the sequence completes.
\<close>

theorem monochrome_registration:
  assumes "CONFIG_LV_TFT_DISPLAY_MONOCHROME cfg"
  shows "disp_buf_inits (trace (startup lib cfg pf g b)) = [(Some Buf1, None, size_in_px cfg)]
    \<and> map rounder_cb (disp_drv_registers (trace (startup lib cfg pf g b))) = [Some Disp_driver_rounder]
    \<and> map set_px_cb (disp_drv_registers (trace (startup lib cfg pf g b))) = [Some Disp_driver_set_px]"
  using assms
  by (simp add: startup_disp_buf_inits startup_disp_drv_registers buf2_def disp_drv_def)

theorem monochrome_registration_witness:
  "CONFIG_LV_TFT_DISPLAY_MONOCHROME ssd1306_config
   \<and> pc (startup recording_library ssd1306_config good_boot [] 0) = L141
   \<and> disp_buf_inits (trace (startup recording_library ssd1306_config good_boot [] 0))
       = [(Some Buf1, None, 8192)]
   \<and> map rounder_cb (disp_drv_registers (trace (startup recording_library ssd1306_config good_boot [] 0)))
       = [Some Disp_driver_rounder]
   \<and> map set_px_cb (disp_drv_registers (trace (startup recording_library ssd1306_config good_boot [] 0)))
       = [Some Disp_driver_set_px]"
proof -
  have mono: "CONFIG_LV_TFT_DISPLAY_MONOCHROME ssd1306_config"
    by (simp add: ssd1306_config_def)
  have size: "size_in_px ssd1306_config = 8192"
    by (simp add: size_in_px_def ssd1306_config_def)
  have pc: "pc (startup recording_library ssd1306_config good_boot [] 0) = L141"
    by (simp add: startup_pc good_boot_def)
  show ?thesis
    using monochrome_registration [OF mono, of recording_library good_boot "[]" 0] mono size pc
    by simp
qed

section \<open>A colour display with two buffers\<close>

text \<open>
  Claim C7. When the display is not monochrome (for instance a colour display whose buffers
  hold 320 by 240 pixels) and the startup sequence completes, both static buffers are
  handed to \<^verbatim>\<open>lv_disp_buf_init\<close>, neither is \<^verbatim>\<open>NULL\<close> and they differ; the one driver
  structure handed to \<^verbatim>\<open>lv_disp_drv_register\<close> carries the flush callback, and the
  registration succeeds as far as \<^verbatim>\<open>guiTask\<close> can tell: no abort follows and the sequence
  reaches the head of the loop. One pass of the loop then comes back to the head of the
  loop, and the only call of the pass that blocks is the wait for the lock. With no
  pending GUI work, that is when the work-processing call leaves the GUI state and the
  display buffers as they are, the pass that acquires the lock leaves the whole state as
  it was, the record of its four calls apart.
\<close>

theorem colour_double_buffered:
  assumes "\<not> CONFIG_LV_TFT_DISPLAY_MONOCHROME cfg"
    and "esp_timer_create_ret pf = ESP_OK" and "esp_timer_start_periodic_ret pf = ESP_OK"
  shows "disp_buf_inits (trace (startup lib cfg pf g b)) = [(Some Buf1, Some Buf2, size_in_px cfg)]
    \<and> list_all (\<lambda>(b1, b2, n). b1 \<noteq> None \<and> b2 \<noteq> None \<and> b1 \<noteq> b2)
         (disp_buf_inits (trace (startup lib cfg pf g b)))
    \<and> disp_drv_registers (trace (startup lib cfg pf g b)) = [disp_drv lib cfg]
    \<and> map flush_cb (disp_drv_registers (trace (startup lib cfg pf g b))) = [Some Disp_driver_flush]
    \<and> Abort \<notin> set (trace (startup lib cfg pf g b))
    \<and> pc (startup lib cfg pf g b) = L141
    \<and> pc (loop_iteration lib cfg pf r (startup lib cfg pf g b)) = L141
    \<and> new_calls (startup lib cfg pf g b) (loop_iteration lib cfg pf r (startup lib cfg pf g b))
       = [VTaskDelay (PdMS_TO_TICKS 10), XSemaphoreTake (xSemaphoreCreateMutex_ret pf) PortMAX_DELAY r]
         @ (if pdTRUE = r then [Lv_task_handler, XSemaphoreGive (xSemaphoreCreateMutex_ret pf)]
            else [])
    \<and> filter blocks
         (new_calls (startup lib cfg pf g b) (loop_iteration lib cfg pf r (startup lib cfg pf g b)))
       = [XSemaphoreTake (xSemaphoreCreateMutex_ret pf) PortMAX_DELAY r]
    \<and> (lv_effect lib Lv_task_handler (sys_time (startup lib cfg pf g b))
          (gui (startup lib cfg pf g b), bufs (startup lib cfg pf g b))
          = (gui (startup lib cfg pf g b), bufs (startup lib cfg pf g b)) \<longrightarrow>
        loop_iteration lib cfg pf pdTRUE (startup lib cfg pf g b) =
          (startup lib cfg pf g b)
            \<lparr>trace := trace (startup lib cfg pf g b)
               @ iteration_calls (xSemaphoreCreateMutex_ret pf)\<rparr>)"
proof -
  let ?s = "startup lib cfg pf g b"
  have bufs: "disp_buf_inits (trace ?s) = [(Some Buf1, Some Buf2, size_in_px cfg)]"
    using assms(1) by (simp add: startup_disp_buf_inits buf2_def)
  have reg: "disp_drv_registers (trace ?s) = [disp_drv lib cfg]"
    by (rule startup_disp_drv_registers)
  have flush: "map flush_cb (disp_drv_registers (trace ?s)) = [Some Disp_driver_flush]"
    using assms(1) by (simp add: startup_disp_drv_registers disp_drv_def)
  have no_abort: "Abort \<notin> set (trace ?s)"
    using assms(2,3) by (simp add: startup_trace)
  have pc: "pc ?s = L141"
    using assms(2,3) by (simp add: startup_pc)
  have calls: "new_calls ?s (loop_iteration lib cfg pf r ?s) =
      [VTaskDelay (PdMS_TO_TICKS 10), XSemaphoreTake (xSemaphoreCreateMutex_ret pf) PortMAX_DELAY r]
      @ (if pdTRUE = r then [Lv_task_handler, XSemaphoreGive (xSemaphoreCreateMutex_ret pf)] else [])"
    by (rule new_calls_append) (simp add: loop_iteration_trace [OF pc] startup_xGuiSemaphore)
  have wait: "filter blocks (new_calls ?s (loop_iteration lib cfg pf r ?s)) =
      [XSemaphoreTake (xSemaphoreCreateMutex_ret pf) PortMAX_DELAY r]"
    by (simp add: calls blocks_def)
  have free: "GuiTask \<notin> holders ?s"
    by (simp add: startup_holders)
  have idle: "loop_iteration lib cfg pf pdTRUE ?s =
      ?s\<lparr>trace := trace ?s @ iteration_calls (xSemaphoreCreateMutex_ret pf)\<rparr>"
    if "lv_effect lib Lv_task_handler (sys_time ?s) (gui ?s, bufs ?s) = (gui ?s, bufs ?s)"
    using loop_iteration_idle [OF pc free that, of cfg pf] by (simp add: startup_xGuiSemaphore)
  show ?thesis
    using bufs reg flush no_abort pc loop_iteration_pc [OF pc, of lib cfg pf r] calls wait idle
    by simp
qed

theorem colour_double_buffered_witness:
  "\<not> CONFIG_LV_TFT_DISPLAY_MONOCHROME colour_config
   \<and> esp_timer_create_ret good_boot = ESP_OK \<and> esp_timer_start_periodic_ret good_boot = ESP_OK
   \<and> disp_buf_inits (trace (startup recording_library colour_config good_boot [] 0))
       = [(Some Buf1, Some Buf2, 76800)]
   \<and> pc (loop_iteration recording_library colour_config good_boot pdTRUE
           (startup recording_library colour_config good_boot [] 0)) = L141
   \<and> filter blocks
        (new_calls (startup recording_library colour_config good_boot [] 0)
           (loop_iteration recording_library colour_config good_boot pdTRUE
              (startup recording_library colour_config good_boot [] 0)))
       = [XSemaphoreTake (Some (Handle 1)) PortMAX_DELAY pdTRUE]"
proof -
  have c: "\<not> CONFIG_LV_TFT_DISPLAY_MONOCHROME colour_config"
    by (simp add: colour_config_def)
  have a: "esp_timer_create_ret good_boot = ESP_OK"
    and b: "esp_timer_start_periodic_ret good_boot = ESP_OK"
    by (simp_all add: good_boot_def)
  have size: "size_in_px colour_config = 76800"
    by (simp add: size_in_px_def colour_config_def)
  have h: "xSemaphoreCreateMutex_ret good_boot = Some (Handle 1)"
    by (simp add: good_boot_def)
  note inst = colour_double_buffered [OF c a b, of recording_library "[]" 0 pdTRUE]
  from inst have bufs: "disp_buf_inits (trace (startup recording_library colour_config good_boot [] 0))
      = [(Some Buf1, Some Buf2, size_in_px colour_config)]"
    by blast
  from inst have returns: "pc (loop_iteration recording_library colour_config good_boot pdTRUE
      (startup recording_library colour_config good_boot [] 0)) = L141"
    by blast
  from inst have wait: "filter blocks
      (new_calls (startup recording_library colour_config good_boot [] 0)
         (loop_iteration recording_library colour_config good_boot pdTRUE
            (startup recording_library colour_config good_boot [] 0)))
      = [XSemaphoreTake (xSemaphoreCreateMutex_ret good_boot) PortMAX_DELAY pdTRUE]"
    by blast
  show ?thesis
    using a b c bufs returns wait by (simp only: size h) simp
qed

section \<open>The lock discipline\<close>

text \<open>
  Claim C8 says that every mutation of GUI state is made by a task that holds the GUI
  lock. The startup sequence never takes the lock: after eight statements from boot,
  \<^verbatim>\<open>guiTask\<close> stands at line 139, nobody holds the lock, and its next statement,
  \<^verbatim>\<open>create_demo_application\<close>, changes the GUI state.
\<close>

theorem widget_tree_built_without_lock:
  "\<exists>s s'. run recording_library ssd1306_config good_boot
            [Gui, Gui, Gui, Gui, Gui, Gui, Gui, Gui] (boot [] 0) = Some s
         \<and> sys_step recording_library ssd1306_config good_boot Gui s = Some s'
         \<and> actor (Gui :: (event list, nat) action) = Some GuiTask
         \<and> holders s = {}
         \<and> gui s' = gui s @ [Create_demo_application]
         \<and> gui s' \<noteq> gui s"
proof -
  have "\<exists>s. run recording_library ssd1306_config good_boot
            [Gui, Gui, Gui, Gui, Gui, Gui, Gui, Gui] (boot [] 0) = Some s
         \<and> pc s = L139 \<and> holders s = {}"
    by (simp add: run_eval good_boot_def ssd1306_config_def pdTRUE_def pdFALSE_def ESP_OK_def)
  then obtain s where r: "run recording_library ssd1306_config good_boot
            [Gui, Gui, Gui, Gui, Gui, Gui, Gui, Gui] (boot [] 0) = Some s"
    and pc: "pc s = L139" and free: "holders s = {}"
    by blast
  let ?s' = "guiTask_step recording_library ssd1306_config good_boot pdFALSE s"
  have step: "sys_step recording_library ssd1306_config good_boot Gui s = Some ?s'"
    using pc by (simp add: sys_step_Gui)
  have built: "gui ?s' = gui s @ [Create_demo_application]"
    using pc by (simp add: guiTask_step_L139_gui recording_library_def)
  then have "gui ?s' \<noteq> gui s" by simp
  with r step free built show ?thesis
    by (intro exI [of _ s] exI [of _ ?s']) simp
qed

text \<open>
  Claim C8, amended. Under every schedule from boot, at most one task holds the GUI lock.
  Once \<^verbatim>\<open>guiTask\<close> is in its loop, every step that changes the GUI state or the display
  buffers is made by a task, and that task is the one holder of the lock; and while
  \<^verbatim>\<open>guiTask\<close> stands between its take and its give it is the one holder, so no other
  task changes GUI state then.
\<close>

theorem gui_lock_discipline:
  assumes "run lib cfg pf sched (boot g b) = Some s"
  shows "(holders s = {} \<or> (\<exists>t. holders s = {t}))
    \<and> (in_loop (pc s) \<longrightarrow>
         (\<forall>a s'. sys_step lib cfg pf a s = Some s' \<longrightarrow> (gui s' \<noteq> gui s \<or> bufs s' \<noteq> bufs s) \<longrightarrow>
            (\<exists>t. actor a = Some t \<and> holders s = {t})))
    \<and> ((pc s = L149 \<or> pc s = L150) \<longrightarrow> holders s = {GuiTask})"
proof -
  note inv = lock_invariant [OF assms]
  have held: "holders s = {GuiTask}" if "pc s = L149 \<or> pc s = L150"
    using inv that by auto
  show ?thesis
    using inv held mutation_needs_lock [OF inv] by blast
qed

theorem gui_lock_discipline_witness:
  "\<exists>s. run recording_library ssd1306_config good_boot
          [Gui, Gui, Other_take 7, Gui, Gui, Gui, Gui, Gui, Gui, Tick, Gui, Gui, Gui,
           Other_call 7 (\<lambda>gb. ([], snd gb)), Other_give 7, Gui]
          (boot [] 0) = Some s
       \<and> pc s = L149 \<and> holders s = {GuiTask}"
proof -
  have "\<exists>s. run recording_library ssd1306_config good_boot
          [Gui, Gui, Other_take 7, Gui, Gui, Gui, Gui, Gui, Gui, Tick, Gui, Gui, Gui,
           Other_call 7 (\<lambda>gb. ([], snd gb)), Other_give 7, Gui]
          (boot [] 0) = Some s
       \<and> pc s = L149"
    by (simp add: run_eval good_boot_def ssd1306_config_def pdTRUE_def pdFALSE_def ESP_OK_def)
  then obtain s where r: "run recording_library ssd1306_config good_boot
          [Gui, Gui, Other_take 7, Gui, Gui, Gui, Gui, Gui, Gui, Tick, Gui, Gui, Gui,
           Other_call 7 (\<lambda>gb. ([], snd gb)), Other_give 7, Gui]
          (boot [] 0) = Some s"
    and pc: "pc s = L149"
    by blast
  from gui_lock_discipline [OF r] pc have "holders s = {GuiTask}" by blast
  with r pc show ?thesis by blast
qed

section \<open>A pass of the loop follows the result of the take\<close>

text \<open>
  Claim C9. In every pass of the loop, the work-processing call is made only if
  \<^verbatim>\<open>xSemaphoreTake\<close> returned \<^verbatim>\<open>pdTRUE\<close>, and the lock is given back exactly then. When
  the take returns anything else, the pass makes neither call: beyond the record of the
  sleep and of the take, the state after the pass is the state before it.
\<close>

theorem iteration_follows_take_result:
  assumes "pc s = L141"
  shows "new_calls s (loop_iteration lib cfg pf r s) =
      [VTaskDelay (PdMS_TO_TICKS 10), XSemaphoreTake (xGuiSemaphore s) PortMAX_DELAY r]
      @ (if r = pdTRUE then [Lv_task_handler, XSemaphoreGive (xGuiSemaphore s)] else [])
    \<and> (Lv_task_handler \<in> set (new_calls s (loop_iteration lib cfg pf r s))) = (r = pdTRUE)
    \<and> (XSemaphoreGive (xGuiSemaphore s) \<in> set (new_calls s (loop_iteration lib cfg pf r s)))
        = (r = pdTRUE)
    \<and> (r \<noteq> pdTRUE \<longrightarrow>
         loop_iteration lib cfg pf r s =
           s\<lparr>trace := trace s @ [VTaskDelay (PdMS_TO_TICKS 10),
                                    XSemaphoreTake (xGuiSemaphore s) PortMAX_DELAY r]\<rparr>)
    \<and> (r = pdTRUE \<longrightarrow> holders (loop_iteration lib cfg pf r s) = holders s - {GuiTask})
    \<and> pc (loop_iteration lib cfg pf r s) = L141"
proof -
  have calls: "new_calls s (loop_iteration lib cfg pf r s) =
      [VTaskDelay (PdMS_TO_TICKS 10), XSemaphoreTake (xGuiSemaphore s) PortMAX_DELAY r]
      @ (if r = pdTRUE then [Lv_task_handler, XSemaphoreGive (xGuiSemaphore s)] else [])"
    by (rule new_calls_append) (auto simp: loop_iteration_trace [OF assms])
  have unchanged: "loop_iteration lib cfg pf r s =
      s\<lparr>trace := trace s @ [VTaskDelay (PdMS_TO_TICKS 10),
                               XSemaphoreTake (xGuiSemaphore s) PortMAX_DELAY r]\<rparr>"
    if "r \<noteq> pdTRUE"
    using loop_iteration_not_taken [OF assms, of r lib cfg pf] that by auto
  have given: "holders (loop_iteration lib cfg pf r s) = holders s - {GuiTask}"
    if "r = pdTRUE"
    using that by (simp add: loop_iteration_holders [OF assms])
  show ?thesis
    using unchanged given loop_iteration_pc [OF assms, of lib cfg pf r]
    by (simp add: calls)
qed

theorem iteration_follows_take_result_witness:
  "pc (startup recording_library ssd1306_config good_boot [] 0) = L141
   \<and> new_calls (startup recording_library ssd1306_config good_boot [] 0)
       (loop_iteration recording_library ssd1306_config good_boot pdFALSE
          (startup recording_library ssd1306_config good_boot [] 0))
     = [VTaskDelay (PdMS_TO_TICKS 10), XSemaphoreTake (Some (Handle 1)) PortMAX_DELAY pdFALSE]
   \<and> new_calls (startup recording_library ssd1306_config good_boot [] 0)
       (loop_iteration recording_library ssd1306_config good_boot pdTRUE
          (startup recording_library ssd1306_config good_boot [] 0))
     = [VTaskDelay (PdMS_TO_TICKS 10), XSemaphoreTake (Some (Handle 1)) PortMAX_DELAY pdTRUE,
        Lv_task_handler, XSemaphoreGive (Some (Handle 1))]"
proof -
  let ?s = "startup recording_library ssd1306_config good_boot [] 0"
  have pc: "pc ?s = L141"
    by (simp add: startup_pc good_boot_def)
  have h: "xGuiSemaphore ?s = Some (Handle 1)"
    by (simp add: startup_xGuiSemaphore good_boot_def)
  show ?thesis
    using iteration_follows_take_result [OF pc, of recording_library ssd1306_config good_boot pdFALSE]
      iteration_follows_take_result [OF pc, of recording_library ssd1306_config good_boot pdTRUE]
      pc h
    by (simp add: pdTRUE_def pdFALSE_def)
qed

section \<open>The registered buffer size\<close>

text \<open>
  Claim C10. For the three e-paper controllers (IL3820, JD79653A, UC8151D) the size handed
  to \<^verbatim>\<open>lv_disp_buf_init\<close> is \<open>8 * DISP_BUF_SIZE\<close>; for every other display it is
  \<open>DISP_BUF_SIZE\<close>. The size is the only one registered, whatever the platform calls
  return. The product is a \<^verbatim>\<open>uint32_t\<close> product, and it is the product of the numbers
  whenever \<open>DISP_BUF_SIZE\<close> is below \<open>2 ^ 29\<close>.
\<close>

theorem registered_buffer_size:
  "map (\<lambda>(b1, b2, n). n) (disp_buf_inits (trace (startup lib cfg pf g b))) = [size_in_px cfg]
   \<and> size_in_px cfg =
       (if CONFIG_LV_TFT_DISPLAY_CONTROLLER_IL3820 cfg
           \<or> CONFIG_LV_TFT_DISPLAY_CONTROLLER_JD79653A cfg
           \<or> CONFIG_LV_TFT_DISPLAY_CONTROLLER_UC8151D cfg
        then 8 * DISP_BUF_SIZE cfg else DISP_BUF_SIZE cfg)
   \<and> (unat (DISP_BUF_SIZE cfg) < 2 ^ 29 \<longrightarrow>
        unat (size_in_px cfg) =
          (if CONFIG_LV_TFT_DISPLAY_CONTROLLER_IL3820 cfg
              \<or> CONFIG_LV_TFT_DISPLAY_CONTROLLER_JD79653A cfg
              \<or> CONFIG_LV_TFT_DISPLAY_CONTROLLER_UC8151D cfg
           then 8 * unat (DISP_BUF_SIZE cfg) else unat (DISP_BUF_SIZE cfg)))"
proof -
  have regs: "map (\<lambda>(b1, b2, n). n) (disp_buf_inits (trace (startup lib cfg pf g b))) = [size_in_px cfg]"
    by (simp add: startup_disp_buf_inits)
  have word: "size_in_px cfg =
       (if CONFIG_LV_TFT_DISPLAY_CONTROLLER_IL3820 cfg
           \<or> CONFIG_LV_TFT_DISPLAY_CONTROLLER_JD79653A cfg
           \<or> CONFIG_LV_TFT_DISPLAY_CONTROLLER_UC8151D cfg
        then 8 * DISP_BUF_SIZE cfg else DISP_BUF_SIZE cfg)"
    by (simp add: size_in_px_def Let_def mult.commute)
  have nat: "unat (8 * DISP_BUF_SIZE cfg) = 8 * unat (DISP_BUF_SIZE cfg)"
    if "unat (DISP_BUF_SIZE cfg) < 2 ^ 29"
  proof -
    have "unat (8 * DISP_BUF_SIZE cfg) = (8 * unat (DISP_BUF_SIZE cfg)) mod 2 ^ 32"
      by (simp add: unat_word_ariths)
    moreover have "8 * unat (DISP_BUF_SIZE cfg) < 2 ^ 32"
      using that by simp
    ultimately show ?thesis by simp
  qed
  show ?thesis
    using regs word nat by simp
qed

theorem registered_buffer_size_witness:
  "unat (DISP_BUF_SIZE il3820_config) < 2 ^ 29
   \<and> unat (size_in_px il3820_config) = 37888
   \<and> map (\<lambda>(b1, b2, n). n)
        (disp_buf_inits (trace (startup recording_library il3820_config good_boot [] 0))) = [37888]
   \<and> size_in_px ssd1306_config = 8192"
  using registered_buffer_size [of recording_library il3820_config good_boot "[]" 0]
    registered_buffer_size [of recording_library ssd1306_config good_boot "[]" 0]
  by (simp add: il3820_config_def ssd1306_config_def)

end
